theory Spec2Isabelle
  imports Complex_Main "HOL-Library.Sublist"
begin

section \<open>Errors and configuration\<close>

text \<open>
  The tool-call handler of \<^verbatim>\<open>src/index.ts\<close> (class \<^verbatim>\<open>CLIServer\<close>) is embedded as
  pure functions over an explicit server state. A thrown JavaScript value is a value of
  type \<open>exn\<close>; a handler that can throw returns \<open>exn + 'a\<close> with \<open>Inl\<close> the thrown value.
\<close>

datatype ErrorCode = InvalidRequest | InvalidParams | InternalError | MethodNotFound

text \<open>
  \<open>Mcp c m\<close> is \<^verbatim>\<open>new McpError(c, m)\<close>, \<open>Zod ms\<close> a \<^verbatim>\<open>z.ZodError\<close> whose issues carry the
  messages \<open>ms\<close>, and \<open>JsError m\<close> any other \<^verbatim>\<open>Error\<close> with message \<open>m\<close>.
\<close>

datatype exn = Mcp ErrorCode string | Zod "string list" | JsError string

text \<open>The keys of \<^verbatim>\<open>ServerConfig['shells']\<close>.\<close>

datatype shell = Powershell | Cmd | Gitbash

text \<open>
  The configuration types live in \<^verbatim>\<open>types/config.ts\<close>; the records below hold the fields
  that \<^verbatim>\<open>index.ts\<close> reads. Numbers are integers. \<open>shell_allowedOperators\<close> stands for
  the operator rules of a shell profile, which only \<^verbatim>\<open>validateShellOperators\<close> reads.
\<close>

record ShellConfig =
  shell_enabled :: bool
  shell_command :: string
  shell_args :: "string list"
  shell_allowedOperators :: "string list"

record SecurityConfig =
  maxCommandLength :: int
  blockedCommands :: "string list"
  blockedArguments :: "string list"
  allowedPaths :: "string list"
  restrictWorkingDirectory :: bool
  logCommands :: bool
  maxHistorySize :: int
  commandTimeout :: int
  enableInjectionProtection :: bool
  maxOutputSize :: int
  enableOutputFiles :: bool
  outputDirectory :: "string option"
  outputFileRetentionHours :: int

record SSHConnectionConfig =
  ssh_host :: string
  ssh_port :: int
  ssh_username :: string
  ssh_password :: string

record SSHConfig =
  ssh_enabled :: bool
  ssh_connections :: "string \<rightharpoonup> SSHConnectionConfig"

record ServerConfig =
  security :: SecurityConfig
  shells :: "shell \<Rightarrow> ShellConfig"
  ssh :: SSHConfig

text \<open>
  What the handler takes from its runtime: the text JavaScript prints for
  \<^verbatim>\<open>maxOutputSize / (1024 * 1024)\<close>, \<^verbatim>\<open>path.resolve\<close>, \<^verbatim>\<open>path.join\<close>, \<^verbatim>\<open>fs.readdirSync\<close> (the
  names it lists for a directory, given the paths that exist, or nothing when it throws),
  \<^verbatim>\<open>process.cwd()\<close>, \<^verbatim>\<open>os.tmpdir()\<close>, \<^verbatim>\<open>toISOString\<close> of the date at a millisecond clock
  value, the \<^verbatim>\<open>message\<close> property of an \<^verbatim>\<open>McpError\<close>, the messages zod puts into its issues
  (for a name outside an enum, a number below a minimum or above a maximum, a missing
  value, and a value that is no object or no number, given the name of the type zod
  received), and the \<^verbatim>\<open>message\<close> property of a \<^verbatim>\<open>ZodError\<close> with given issues.
\<close>

record host =
  megabytes :: "int \<Rightarrow> string"
  pathResolve :: "string \<Rightarrow> string"
  pathJoin :: "string \<Rightarrow> string \<Rightarrow> string"
  readdirSync :: "string list \<Rightarrow> string \<Rightarrow> string list option"
  cwd :: string
  tmpdir :: string
  toISOString :: "int \<Rightarrow> string"
  mcpMessage :: "ErrorCode \<Rightarrow> string \<Rightarrow> string"
  zodInvalidEnum :: "string list \<Rightarrow> string \<Rightarrow> string"
  zodTooSmall :: "int \<Rightarrow> string"
  zodTooBig :: "int \<Rightarrow> string"
  zodRequired :: string
  zodExpectedObject :: "string \<Rightarrow> string"
  zodExpectedNumber :: "string \<Rightarrow> string"
  zodErrorMessage :: "string list \<Rightarrow> string"

text \<open>
  The functions imported from \<^verbatim>\<open>utils/validation.js\<close>, which is not among the sources:
  \<^verbatim>\<open>validateCommand\<close> takes them as parameters. \<open>validateShellOperators\<close> returns the
  value it throws, if any; \<open>parseCommand\<close> may throw too.
\<close>

record validation =
  validateShellOperators :: "string \<Rightarrow> ShellConfig \<Rightarrow> exn option"
  parseCommand :: "string \<Rightarrow> exn + string \<times> string list"
  isCommandBlocked :: "string \<Rightarrow> string list \<Rightarrow> bool"
  isArgumentBlocked :: "string list \<Rightarrow> string list \<Rightarrow> bool"
  extractCommandName :: "string \<Rightarrow> string"

section \<open>JavaScript primitives\<close>

abbreviation NL :: char where "NL \<equiv> CHR 0x0A"
abbreviation DQ :: char where "DQ \<equiv> CHR 0x22"
abbreviation SQ :: char where "SQ \<equiv> CHR 0x27"
abbreviation BSL :: char where "BSL \<equiv> CHR 0x5C"

text \<open>\<^verbatim>\<open>Array.from(new Set(xs))\<close>: the first occurrence of each element, in order.\<close>

definition setArray :: "'a list \<Rightarrow> 'a list" where
  "setArray xs = rev (remdups (rev xs))"

text \<open>
  \<^verbatim>\<open>xs.slice(start)\<close> for an integer \<open>start\<close>: a negative start counts from the end
  (and stops at the front), a start past the end gives the empty array.
\<close>

definition slice_from :: "int \<Rightarrow> 'a list \<Rightarrow> 'a list" where
  "slice_from start xs =
     (if start < 0 then drop (nat (max (int (length xs) + start) 0)) xs
      else drop (nat start) xs)"

text \<open>
  \<^verbatim>\<open>ToIntegerOrInfinity\<close>, which \<^verbatim>\<open>slice\<close> applies to its argument: a number is cut towards
  zero.
\<close>

definition toIntegerOrInfinity :: "rat \<Rightarrow> int" where
  "toIntegerOrInfinity x = (if x < 0 then - \<lfloor>- x\<rfloor> else \<lfloor>x\<rfloor>)"

text \<open>
  The delay \<^verbatim>\<open>setTimeout\<close> works with: Node replaces a delay below 1 or above 2147483647
  milliseconds by 1.
\<close>

definition timerDelay :: "int \<Rightarrow> int" where
  "timerDelay after = (if 1 \<le> after \<and> after \<le> 2147483647 then after else 1)"

text \<open>The decimal text of an integer, as a template literal prints it.\<close>

function digitString :: "int \<Rightarrow> string" where
  "digitString n =
     (if n < 10 then [''0123456789'' ! nat n]
      else digitString (n div 10) @ [''0123456789'' ! nat (n mod 10)])"
  by pat_completeness auto
termination
  by (relation "measure nat") auto

definition numberString :: "int \<Rightarrow> string" where
  "numberString i = (if i < 0 then ''-'' @ digitString (- i) else digitString i)"

text \<open>A string that JavaScript takes as true: defined and not empty.\<close>

fun truthy :: "string option \<Rightarrow> bool" where
  "truthy None = False"
| "truthy (Some s) = (s \<noteq> [])"

section \<open>Command validation\<close>

definition blockedArgumentMessage :: string where
  "blockedArgumentMessage =
     ''One or more arguments are blocked. Check configuration for blocked patterns.''"

text \<open>
  \<^verbatim>\<open>CLIServer.validateCommand\<close>: \<open>Inr ()\<close> when it returns, \<open>Inl e\<close> when it throws \<open>e\<close>.
\<close>

definition validateCommand :: "validation \<Rightarrow> ServerConfig \<Rightarrow> shell \<Rightarrow> string \<Rightarrow> exn + unit" where
  "validateCommand u cfg sh c =
     (case (if enableInjectionProtection (security cfg)
            then validateShellOperators u c (shells cfg sh) else None) of
        Some e \<Rightarrow> Inl e
      | None \<Rightarrow>
         (case parseCommand u c of
            Inl e \<Rightarrow> Inl e
          | Inr (executable, as) \<Rightarrow>
              if isCommandBlocked u executable (setArray (blockedCommands (security cfg)))
              then Inl (Mcp InvalidRequest
                     (''Command is blocked: '' @ [DQ] @ extractCommandName u executable @ [DQ]))
              else if isArgumentBlocked u as (blockedArguments (security cfg))
              then Inl (Mcp InvalidRequest blockedArgumentMessage)
              else if int (length c) > maxCommandLength (security cfg)
              then Inl (Mcp InvalidRequest
                     (''Command exceeds maximum length of ''
                        @ numberString (maxCommandLength (security cfg))))
              else Inr ()))"

section \<open>Server state\<close>

record CommandHistoryEntry =
  h_command :: string
  h_output :: string
  h_timestamp :: string
  h_exitCode :: int
  h_connectionId :: "string option"

record diskFile =
  file_content :: string
  file_mtimeMs :: int

text \<open>A call made on \<^verbatim>\<open>this.sshPool\<close> or on a connection taken from it.\<close>

datatype pool_call = GetConnection string | ExecuteCommand string string | CloseConnection string

text \<open>
  The state the handlers share: the history array, the files on disk (each path with its
  file), and a log of the calls to \<^verbatim>\<open>spawn\<close> (command, arguments, working directory) and to
  the session pool.
\<close>

record server =
  commandHistory :: "CommandHistoryEntry list"
  fs :: "(string \<times> diskFile) list"
  spawnCalls :: "(string \<times> string list \<times> string) list"
  poolCalls :: "pool_call list"

datatype payload = Text string | Json "CommandHistoryEntry list"

datatype metadata = ExecMetadata int shell string | SshMetadata int string

text \<open>
  A tool result. The history tool returns \<^verbatim>\<open>JSON.stringify(history, null, 2)\<close>; the model
  keeps the array itself (\<open>Json\<close>).
\<close>

record ToolResult =
  content :: payload
  isError :: "bool option"
  metadata :: "metadata option"

text \<open>
  \<^verbatim>\<open>if (length > maxHistorySize) commandHistory = commandHistory.slice(-maxHistorySize)\<close>, as the
  \<^verbatim>\<open>close\<close> handler and the successful path of \<^verbatim>\<open>ssh_execute\<close> have it.
\<close>

definition trimHistory :: "ServerConfig \<Rightarrow> CommandHistoryEntry list \<Rightarrow> CommandHistoryEntry list" where
  "trimHistory cfg h =
     (if int (length h) > maxHistorySize (security cfg)
      then slice_from (- maxHistorySize (security cfg)) h else h)"

text \<open>The outermost \<^verbatim>\<open>catch\<close> of the request handler.\<close>

fun joinComma :: "string list \<Rightarrow> string" where
  "joinComma [] = []"
| "joinComma [m] = m"
| "joinComma (m # ms) = m @ '', '' @ joinComma ms"

fun outerCatch :: "exn \<Rightarrow> exn" where
  "outerCatch (Zod ms) = Mcp InvalidParams (''Invalid arguments: '' @ joinComma ms)"
| "outerCatch e = e"

section \<open>Local execution\<close>

text \<open>
  The variables of one \<^verbatim>\<open>execute_command\<close> invocation that its event handlers close
  over (\<open>outputBuf\<close> and \<open>errorBuf\<close> are its \<^verbatim>\<open>output\<close> and \<^verbatim>\<open>error\<close>), with the state of
  the child process (\<open>killed\<close>), of the timer (\<open>timer\<close>: the time it is due while it is
  pending) and of the promise (\<open>promise\<close>: how it was settled).
\<close>

record proc =
  p_command :: string
  p_shell :: shell
  p_workingDir :: string
  outputBuf :: string
  errorBuf :: string
  outputSize :: int
  truncated :: bool
  outputFilePath :: "string option"
  killed :: bool
  timer :: "int option"
  promise :: "(exn + ToolResult) option"

text \<open>\<^verbatim>\<open>resolve\<close> and \<^verbatim>\<open>reject\<close>: a promise is settled once.\<close>

definition settle :: "exn + ToolResult \<Rightarrow> proc \<Rightarrow> proc" where
  "settle r p = (case promise p of None \<Rightarrow> p\<lparr>promise := Some r\<rparr> | Some _ \<Rightarrow> p)"

text \<open>The file at a path, writing a file (new or in place of the old one), and unlinking.\<close>

definition readFile :: "server \<Rightarrow> string \<Rightarrow> diskFile option" where
  "readFile s path = map_of (fs s) path"

fun writeFile :: "string \<Rightarrow> diskFile \<Rightarrow> (string \<times> diskFile) list \<Rightarrow> (string \<times> diskFile) list" where
  "writeFile path f [] = [(path, f)]"
| "writeFile path f ((q, g) # d) = (if q = path then (path, f) # d else (q, g) # writeFile path f d)"

definition unlink :: "string \<Rightarrow> (string \<times> diskFile) list \<Rightarrow> (string \<times> diskFile) list" where
  "unlink path d = filter (\<lambda>(q, g). q \<noteq> path) d"

definition outputFileName :: "host \<Rightarrow> int \<Rightarrow> string" where
  "outputFileName env now =
     ''output-''
       @ map (\<lambda>c. if c = CHR '':'' \<or> c = CHR ''.'' then CHR ''-'' else c) (toISOString env now)
       @ ''.txt''"

text \<open>
  \<^verbatim>\<open>saveToFile\<close>: the path it returns, and the closure and the disk after it. Writing and
  appending succeed: the output directory exists and can be written to.
\<close>

definition saveToFile ::
  "host \<Rightarrow> ServerConfig \<Rightarrow> int \<Rightarrow> string \<Rightarrow> proc \<times> server \<Rightarrow> string option \<times> proc \<times> server" where
  "saveToFile env cfg now text ps =
     (case ps of (p, s) \<Rightarrow>
        (case outputDirectory (security cfg) of
           None \<Rightarrow> (None, p, s)
         | Some dir \<Rightarrow>
             if dir = [] then (None, p, s)
             else let path = pathJoin env dir (outputFileName env now)
                  in (Some path, p\<lparr>outputFilePath := Some path\<rparr>,
                      s\<lparr>fs := writeFile path \<lparr>file_content = text, file_mtimeMs = now\<rparr> (fs s)\<rparr>)))"

text \<open>\<^verbatim>\<open>fs.appendFileSync\<close>.\<close>

definition appendFile :: "string \<Rightarrow> string \<Rightarrow> int \<Rightarrow> server \<Rightarrow> server" where
  "appendFile path text now s =
     s\<lparr>fs := writeFile path
        \<lparr>file_content = (case readFile s path of None \<Rightarrow> text | Some f \<Rightarrow> file_content f @ text),
         file_mtimeMs = now\<rparr> (fs s)\<rparr>"

definition exceededNotice :: "host \<Rightarrow> ServerConfig \<Rightarrow> string" where
  "exceededNotice env cfg =
     ''Output exceeded '' @ megabytes env (maxOutputSize (security cfg)) @ ''MB limit.'' @ [NL]"

definition stdoutMarker :: string where
  "stdoutMarker = [NL] @ ''... Output truncated due to size limit ...''"

definition stderrMarker :: string where
  "stderrMarker = [NL] @ ''... Error output truncated due to size limit ...''"

text \<open>The \<^verbatim>\<open>data\<close> handler of \<^verbatim>\<open>shellProcess.stdout\<close>.\<close>

definition onStdout :: "host \<Rightarrow> ServerConfig \<Rightarrow> int \<Rightarrow> string \<Rightarrow> proc \<times> server \<Rightarrow> proc \<times> server" where
  "onStdout env cfg now chunk ps =
     (case ps of (p, s) \<Rightarrow>
        if outputSize p + int (length chunk) \<le> maxOutputSize (security cfg)
        then (p\<lparr>outputBuf := outputBuf p @ chunk, outputSize := outputSize p + int (length chunk)\<rparr>, s)
        else if enableOutputFiles (security cfg)
        then (if \<not> truncated p
              then (case saveToFile env cfg now (outputBuf p @ chunk) (p\<lparr>outputBuf := outputBuf p @ chunk\<rparr>, s) of
                      (filePath, p', s') \<Rightarrow>
                        (p'\<lparr>outputBuf := exceededNotice env cfg
                               @ (case filePath of
                                    None \<Rightarrow> []
                                  | Some f \<Rightarrow> if f = [] then []
                                              else ''Full output saved to: '' @ f @ [NL]),
                            truncated := True\<rparr>, s'))
              else (if truthy (outputFilePath p)
                    then (p, appendFile (the (outputFilePath p)) chunk now s)
                    else (p, s)))
        else if \<not> truncated p
        then (p\<lparr>outputBuf := outputBuf p @ stdoutMarker, truncated := True\<rparr>, s)
        else (p, s))"

text \<open>The \<^verbatim>\<open>data\<close> handler of \<^verbatim>\<open>shellProcess.stderr\<close>.\<close>

definition onStderr :: "ServerConfig \<Rightarrow> string \<Rightarrow> proc \<times> server \<Rightarrow> proc \<times> server" where
  "onStderr cfg chunk ps =
     (case ps of (p, s) \<Rightarrow>
        if outputSize p + int (length chunk) \<le> maxOutputSize (security cfg)
        then (p\<lparr>errorBuf := errorBuf p @ chunk, outputSize := outputSize p + int (length chunk)\<rparr>, s)
        else if \<not> truncated p
        then (p\<lparr>errorBuf := errorBuf p @ stderrMarker, truncated := True\<rparr>, s)
        else (p, s))"

text \<open>
  The note on truncation that the \<^verbatim>\<open>close\<close> handler adds to the result message; the
  source writes it out twice, once for each exit status.
\<close>

definition truncationNote :: "host \<Rightarrow> ServerConfig \<Rightarrow> proc \<Rightarrow> string" where
  "truncationNote env cfg p =
     (if truncated p
      then (if truthy (outputFilePath p)
            then [NL, NL] @ ''Output exceeded '' @ megabytes env (maxOutputSize (security cfg))
                   @ ''MB limit and was saved to:'' @ [NL] @ the (outputFilePath p)
            else [NL, NL] @ ''Output exceeded '' @ megabytes env (maxOutputSize (security cfg))
                   @ ''MB limit and was truncated.'' @ [NL]
                   @ ''To save large outputs to files, enable '' @ [SQ] @ ''enableOutputFiles''
                   @ [SQ] @ '' in your config.json''
                   @ (if truthy (outputDirectory (security cfg))
                      then [NL] @ ''Outputs will be saved to: '' @ the (outputDirectory (security cfg))
                      else [NL] @ ''Outputs will be saved to: ''
                             @ pathJoin env (tmpdir env) ''win-cli-mcp-output''))
      else [])"

fun codeString :: "int option \<Rightarrow> string" where
  "codeString None = ''null''"
| "codeString (Some c) = numberString c"

definition resultMessage :: "host \<Rightarrow> ServerConfig \<Rightarrow> int option \<Rightarrow> proc \<Rightarrow> string" where
  "resultMessage env cfg code p =
     (if code = Some 0
      then (if outputBuf p = [] then ''Command completed successfully (no output)'' else outputBuf p)
             @ truncationNote env cfg p
      else ''Command failed with exit code '' @ codeString code @ [NL]
             @ (if errorBuf p = [] then [] else ''Error output:'' @ [NL] @ errorBuf p @ [NL])
             @ (if outputBuf p = [] then [] else ''Standard output:'' @ [NL] @ outputBuf p)
             @ (if errorBuf p = [] \<and> outputBuf p = []
                then ''No error message or output was provided'' else [])
             @ truncationNote env cfg p)"

text \<open>\<^verbatim>\<open>code ?? -1\<close>.\<close>

fun exitCodeOf :: "int option \<Rightarrow> int" where
  "exitCodeOf None = - 1"
| "exitCodeOf (Some c) = c"

text \<open>
  The sweep of old output files at the end of the \<^verbatim>\<open>close\<close> handler, over the paths it
  visits: \<^verbatim>\<open>statSync\<close> throws for a path that is no file, which ends the loop (the \<^verbatim>\<open>catch\<close>
  around it logs the error); a file last modified before the cutoff is unlinked.
\<close>

fun sweep :: "int \<Rightarrow> string list \<Rightarrow> (string \<times> diskFile) list \<Rightarrow> (string \<times> diskFile) list" where
  "sweep cutoffTime [] d = d"
| "sweep cutoffTime (filePath # filePaths) d =
     (case map_of d filePath of
        None \<Rightarrow> d
      | Some stats \<Rightarrow>
          if file_mtimeMs stats < cutoffTime then sweep cutoffTime filePaths (unlink filePath d)
          else sweep cutoffTime filePaths d)"

text \<open>
  The clean-up itself: the names of the output directory that start with \<^verbatim>\<open>output-\<close>, joined
  to the directory, are swept; nothing happens when \<^verbatim>\<open>readdirSync\<close> throws.
\<close>

definition cleanupOutputFiles :: "host \<Rightarrow> ServerConfig \<Rightarrow> int \<Rightarrow> server \<Rightarrow> server" where
  "cleanupOutputFiles env cfg now s =
     (if enableOutputFiles (security cfg) \<and> truthy (outputDirectory (security cfg))
      then (case readdirSync env (map fst (fs s)) (the (outputDirectory (security cfg))) of
              None \<Rightarrow> s
            | Some names \<Rightarrow>
                s\<lparr>fs := sweep (now - outputFileRetentionHours (security cfg) * 60 * 60 * 1000)
                          (map (pathJoin env (the (outputDirectory (security cfg))))
                             (filter (prefix ''output-'') names))
                          (fs s)\<rparr>)
      else s)"

text \<open>
  The two \<^verbatim>\<open>close\<close> listeners, in the order they were added: the one that builds the
  result, and the one that clears the timer.
\<close>

definition onClose :: "host \<Rightarrow> ServerConfig \<Rightarrow> int \<Rightarrow> int option \<Rightarrow> proc \<times> server \<Rightarrow> proc \<times> server" where
  "onClose env cfg now code ps =
     (case ps of (p, s) \<Rightarrow>
        let msg = resultMessage env cfg code p;
            s1 = (if logCommands (security cfg)
                  then s\<lparr>commandHistory := trimHistory cfg (commandHistory s @
                         [\<lparr>h_command = p_command p, h_output = msg,
                           h_timestamp = toISOString env now, h_exitCode = exitCodeOf code,
                           h_connectionId = None\<rparr>])\<rparr>
                  else s);
            s2 = cleanupOutputFiles env cfg now s1;
            p1 = settle (Inr \<lparr>content = Text msg, isError = Some (code \<noteq> Some 0),
                              metadata = Some (ExecMetadata (exitCodeOf code) (p_shell p)
                                                 (p_workingDir p))\<rparr>) p
        in (p1\<lparr>timer := None\<rparr>, s2))"

text \<open>The \<^verbatim>\<open>error\<close> listener of the child process.\<close>

definition onError :: "host \<Rightarrow> ServerConfig \<Rightarrow> int \<Rightarrow> string \<Rightarrow> proc \<times> server \<Rightarrow> proc \<times> server" where
  "onError env cfg now m ps =
     (case ps of (p, s) \<Rightarrow>
        let errorMessage = ''Shell process error: '' @ m;
            s1 = (if logCommands (security cfg)
                  then s\<lparr>commandHistory := commandHistory s @
                         [\<lparr>h_command = p_command p, h_output = errorMessage,
                           h_timestamp = toISOString env now, h_exitCode = - 1,
                           h_connectionId = None\<rparr>]\<rparr>
                  else s)
        in (settle (Inl (Mcp InternalError errorMessage)) p, s1))"

definition timeoutMessage :: "ServerConfig \<Rightarrow> string" where
  "timeoutMessage cfg =
     ''Command execution timed out after '' @ numberString (commandTimeout (security cfg))
       @ '' seconds. Consult the server admin for configuration changes (config.json - commandTimeout).''"

text \<open>
  The callback given to \<^verbatim>\<open>setTimeout\<close>. The runtime calls it once, when the timer is still
  pending and due; a cleared timer never fires.
\<close>

definition onTimeout :: "host \<Rightarrow> ServerConfig \<Rightarrow> int \<Rightarrow> proc \<times> server \<Rightarrow> proc \<times> server" where
  "onTimeout env cfg now ps =
     (case ps of (p, s) \<Rightarrow>
        (case timer p of
           None \<Rightarrow> (p, s)
         | Some due \<Rightarrow>
             if now < due then (p, s)
             else let s1 = (if logCommands (security cfg)
                            then s\<lparr>commandHistory := commandHistory s @
                                   [\<lparr>h_command = p_command p, h_output = timeoutMessage cfg,
                                     h_timestamp = toISOString env now, h_exitCode = - 1,
                                     h_connectionId = None\<rparr>]\<rparr>
                            else s)
                  in (settle (Inl (Mcp InternalError (timeoutMessage cfg)))
                        (p\<lparr>killed := True, timer := None\<rparr>), s1)))"

text \<open>What the runtime delivers to one invocation, each with the clock at delivery.\<close>

datatype event = Stdout string | Stderr string | Close "int option" | ProcError string | Timeout

fun handle :: "host \<Rightarrow> ServerConfig \<Rightarrow> int \<times> event \<Rightarrow> proc \<times> server \<Rightarrow> proc \<times> server" where
  "handle env cfg (now, Stdout chunk) ps = onStdout env cfg now chunk ps"
| "handle env cfg (now, Stderr chunk) ps = onStderr cfg chunk ps"
| "handle env cfg (now, Close code) ps = onClose env cfg now code ps"
| "handle env cfg (now, ProcError m) ps = onError env cfg now m ps"
| "handle env cfg (now, Timeout) ps = onTimeout env cfg now ps"

fun run :: "host \<Rightarrow> ServerConfig \<Rightarrow> (int \<times> event) list \<Rightarrow> proc \<times> server \<Rightarrow> proc \<times> server" where
  "run env cfg [] ps = ps"
| "run env cfg (e # es) ps = run env cfg es (handle env cfg e ps)"

section \<open>The tool handlers\<close>

record ExecuteArgs =
  a_shell :: string
  a_command :: string
  a_workingDir :: "string option"

definition shellKeys :: "(string \<times> shell) list" where
  "shellKeys = [(''powershell'', Powershell), (''cmd'', Cmd), (''gitbash'', Gitbash)]"

text \<open>The names \<^verbatim>\<open>z.enum\<close> accepts for \<^verbatim>\<open>shell\<close>: the keys of the enabled shells.\<close>

definition enabledShells :: "ServerConfig \<Rightarrow> string list" where
  "enabledShells cfg = map fst (filter (\<lambda>(n, k). shell_enabled (shells cfg k)) shellKeys)"

text \<open>What \<^verbatim>\<open>spawn\<close> does: it throws, it returns a child without streams, or it starts one.\<close>

datatype spawn_outcome = SpawnThrows string | SpawnNoStreams | Spawned

definition workingDirMessage :: "string \<Rightarrow> string" where
  "workingDirMessage dir =
     ''Working directory ('' @ dir @ '') outside allowed paths. Consult the server admin for configuration changes (config.json - restrictWorkingDirectory, allowedPaths).''"

text \<open>
  The closure once the child process runs: the variables as they are declared, the
  promise pending, and the timer set by \<^verbatim>\<open>setTimeout\<close> with the delay
  \<^verbatim>\<open>commandTimeout * 1000\<close>, counted from \<open>now\<close>.
\<close>

definition spawned :: "ServerConfig \<Rightarrow> string \<Rightarrow> shell \<Rightarrow> string \<Rightarrow> int \<Rightarrow> proc" where
  "spawned cfg c sh workingDir now =
     \<lparr>p_command = c, p_shell = sh, p_workingDir = workingDir,
      outputBuf = [], errorBuf = [], outputSize = 0, truncated = False,
      outputFilePath = None, killed = False,
      timer = Some (now + timerDelay (commandTimeout (security cfg) * 1000)),
      promise = None\<rparr>"

text \<open>
  \<^verbatim>\<open>execute_command\<close> up to the end of the promise's executor: either the call is rejected
  (\<open>Inl\<close>), or a child process runs and its listeners and timer are set (\<open>Inr\<close>, the closure
  in its first state). \<open>now\<close> is the clock when \<^verbatim>\<open>setTimeout\<close> is called.
\<close>

definition execute_command ::
  "host \<Rightarrow> validation \<Rightarrow> ServerConfig \<Rightarrow> ExecuteArgs \<Rightarrow> spawn_outcome \<Rightarrow> int \<Rightarrow> server
     \<Rightarrow> (exn + proc) \<times> server" where
  "execute_command env u cfg a sp now s =
     (case (if a_shell a \<in> set (enabledShells cfg) then map_of shellKeys (a_shell a) else None) of
        None \<Rightarrow> (Inl (outerCatch (Zod [zodInvalidEnum env (enabledShells cfg) (a_shell a)])), s)
      | Some sh \<Rightarrow>
         (case validateCommand u cfg sh (a_command a) of
            Inl e \<Rightarrow> (Inl (outerCatch e), s)
          | Inr _ \<Rightarrow>
             let workingDir = (if truthy (a_workingDir a)
                               then pathResolve env (the (a_workingDir a)) else cwd env);
                 shellConfig = shells cfg sh
             in if restrictWorkingDirectory (security cfg)
                   \<and> \<not> list_ex (\<lambda>allowedPath. prefix allowedPath workingDir)
                          (setArray (allowedPaths (security cfg)))
                then (Inl (Mcp InvalidRequest (workingDirMessage workingDir)), s)
                else let s' = s\<lparr>spawnCalls := spawnCalls s @
                                 [(shell_command shellConfig,
                                   shell_args shellConfig @ [a_command a], workingDir)]\<rparr>
                     in (case sp of
                           SpawnThrows m \<Rightarrow>
                             (Inl (Mcp InternalError
                                (''Failed to start shell process: '' @ m
                                   @ ''. Consult the server admin for configuration changes (config.json - shells).'')), s')
                         | SpawnNoStreams \<Rightarrow>
                             (Inl (Mcp InternalError ''Failed to initialize shell process streams''), s')
                         | Spawned \<Rightarrow>
                             (Inr (spawned cfg (a_command a) sh workingDir now), s'))))"

definition historyDisabledNotice :: string where
  "historyDisabledNotice =
     ''Command history is disabled in configuration. Consult the server admin for configuration changes (config.json - logCommands).''"

text \<open>
  What a call of \<^verbatim>\<open>get_command_history\<close> carries as \<^verbatim>\<open>request.params.arguments\<close>: nothing,
  a value that is no object, or an object, whose \<^verbatim>\<open>limit\<close> is missing, a number, or
  anything else. A value of the wrong kind comes with the name zod gives to its type.
\<close>

datatype limit_arg = NoLimit | Limit rat | NotANumber string

datatype history_args = NoArguments | NotAnObject string | Arguments limit_arg

text \<open>
  The issues of \<^verbatim>\<open>z.number().min(1).max(maxHistorySize).optional().default(10)\<close> on a
  number; zod 3 runs the checks on the default as well.
\<close>

definition limitIssues :: "host \<Rightarrow> ServerConfig \<Rightarrow> rat \<Rightarrow> string list" where
  "limitIssues env cfg l =
     (if l < 1 then [zodTooSmall env 1] else [])
       @ (if l > of_int (maxHistorySize (security cfg))
          then [zodTooBig env (maxHistorySize (security cfg))] else [])"

text \<open>
  \<^verbatim>\<open>get_command_history\<close>: the check of \<^verbatim>\<open>logCommands\<close>, the parse of the arguments, and the
  last entries with their output cut.
\<close>

definition get_command_history ::
  "host \<Rightarrow> ServerConfig \<Rightarrow> history_args \<Rightarrow> server \<Rightarrow> exn + ToolResult" where
  "get_command_history env cfg args s =
     (if \<not> logCommands (security cfg)
      then Inr \<lparr>content = Text historyDisabledNotice, isError = None, metadata = None\<rparr>
      else (case args of
              NoArguments \<Rightarrow> Inl (outerCatch (Zod [zodRequired env]))
            | NotAnObject received \<Rightarrow> Inl (outerCatch (Zod [zodExpectedObject env received]))
            | Arguments (NotANumber received) \<Rightarrow>
                Inl (outerCatch (Zod [zodExpectedNumber env received]))
            | Arguments given \<Rightarrow>
                let l = (case given of Limit n \<Rightarrow> n | _ \<Rightarrow> 10)
                in if limitIssues env cfg l \<noteq> []
                   then Inl (outerCatch (Zod (limitIssues env cfg l)))
                   else Inr \<lparr>content = Json (map (\<lambda>entry. entry\<lparr>h_output := take 1000 (h_output entry)\<rparr>)
                                               (slice_from (toIntegerOrInfinity (- l)) (commandHistory s))),
                             isError = None, metadata = None\<rparr>))"

text \<open>
  What the remote side does in one \<^verbatim>\<open>ssh_execute\<close>: \<^verbatim>\<open>getConnection\<close> rejects,
  \<^verbatim>\<open>executeCommand\<close> rejects, or the command runs and gives its output and exit code.
\<close>

datatype remote = ConnectFails string | ExecuteFails string | Executed string int

text \<open>\<^verbatim>\<open>error instanceof Error ? error.message : String(error)\<close>.\<close>

fun exnMessage :: "host \<Rightarrow> exn \<Rightarrow> string" where
  "exnMessage env (Mcp c m) = mcpMessage env c m"
| "exnMessage env (JsError m) = m"
| "exnMessage env (Zod ms) = zodErrorMessage env ms"

definition sshDisabledMessage :: string where
  "sshDisabledMessage = ''SSH support is disabled in configuration''"

text \<open>The \<^verbatim>\<open>try\<close> block of \<^verbatim>\<open>ssh_execute\<close>.\<close>

definition ssh_try ::
  "host \<Rightarrow> validation \<Rightarrow> ServerConfig \<Rightarrow> string \<Rightarrow> string \<Rightarrow> remote \<Rightarrow> int \<Rightarrow> server
     \<Rightarrow> (exn + ToolResult) \<times> server" where
  "ssh_try env u cfg connectionId c r now s =
     (case validateCommand u cfg Cmd c of
        Inl e \<Rightarrow> (Inl e, s)
      | Inr _ \<Rightarrow>
         let s1 = s\<lparr>poolCalls := poolCalls s @ [GetConnection connectionId]\<rparr>
         in (case r of
               ConnectFails m \<Rightarrow> (Inl (JsError m), s1)
             | ExecuteFails m \<Rightarrow>
                 (Inl (JsError m), s1\<lparr>poolCalls := poolCalls s1 @ [ExecuteCommand connectionId c]\<rparr>)
             | Executed out exitCode \<Rightarrow>
                 let s2 = s1\<lparr>poolCalls := poolCalls s1 @ [ExecuteCommand connectionId c]\<rparr>;
                     s3 = (if logCommands (security cfg)
                           then s2\<lparr>commandHistory := trimHistory cfg (commandHistory s2 @
                                  [\<lparr>h_command = c, h_output = out,
                                    h_timestamp = toISOString env now, h_exitCode = exitCode,
                                    h_connectionId = Some connectionId\<rparr>])\<rparr>
                           else s2)
                 in (Inr \<lparr>content = Text (if out = []
                                            then ''Command completed successfully (no output)''
                                            else out),
                          isError = Some (exitCode \<noteq> 0),
                          metadata = Some (SshMetadata exitCode connectionId)\<rparr>, s3)))"

text \<open>\<^verbatim>\<open>ssh_execute\<close>: the checks before the \<^verbatim>\<open>try\<close>, the \<^verbatim>\<open>try\<close> and its \<^verbatim>\<open>catch\<close>.\<close>

definition ssh_execute ::
  "host \<Rightarrow> validation \<Rightarrow> ServerConfig \<Rightarrow> string \<Rightarrow> string \<Rightarrow> remote \<Rightarrow> int \<Rightarrow> server
     \<Rightarrow> (exn + ToolResult) \<times> server" where
  "ssh_execute env u cfg connectionId c r now s =
     (if \<not> ssh_enabled (ssh cfg) then (Inl (Mcp InvalidRequest sshDisabledMessage), s)
      else (case ssh_connections (ssh cfg) connectionId of
              None \<Rightarrow> (Inl (Mcp InvalidRequest (''Unknown SSH connection ID: '' @ connectionId)), s)
            | Some connectionConfig \<Rightarrow>
               (case ssh_try env u cfg connectionId c r now s of
                  (Inr res, s') \<Rightarrow> (Inr res, s')
                | (Inl e, s') \<Rightarrow>
                    let errorMessage = exnMessage env e;
                        s'' = (if logCommands (security cfg)
                               then s'\<lparr>commandHistory := commandHistory s' @
                                      [\<lparr>h_command = c, h_output = ''SSH error: '' @ errorMessage,
                                        h_timestamp = toISOString env now, h_exitCode = - 1,
                                        h_connectionId = Some connectionId\<rparr>]\<rparr>
                               else s')
                    in (Inl (Mcp InternalError (''SSH error: '' @ errorMessage)), s''))))"

text \<open>
  \<^verbatim>\<open>ssh_disconnect\<close>; \<open>closeFails\<close> is what \<^verbatim>\<open>closeConnection\<close> rejects with, if it does.
\<close>

definition ssh_disconnect ::
  "ServerConfig \<Rightarrow> string \<Rightarrow> exn option \<Rightarrow> server \<Rightarrow> (exn + ToolResult) \<times> server" where
  "ssh_disconnect cfg connectionId closeFails s =
     (if \<not> ssh_enabled (ssh cfg) then (Inl (Mcp InvalidRequest sshDisabledMessage), s)
      else let s' = s\<lparr>poolCalls := poolCalls s @ [CloseConnection connectionId]\<rparr>
           in (case closeFails of
                 Some e \<Rightarrow> (Inl (outerCatch e), s')
               | None \<Rightarrow>
                   (Inr \<lparr>content = Text (''Disconnected from '' @ connectionId), isError = None,
                         metadata = None\<rparr>, s')))"

section \<open>A validation module after the specification\<close>

text \<open>
  Modelled from the spec: \<^verbatim>\<open>utils/validation.js\<close> is missing from the sources. The functions of
  this section follow sections 4.1 and 4.2 of the specification, with blocked patterns read
  as literal substrings. They are used where a concrete validation module is needed;
  \<open>validateCommand\<close> and the handlers do not depend on them.
\<close>

text \<open>Modelled from the spec: the lower-case form used by the case-insensitive comparison.\<close>

definition lowerChar :: "char \<Rightarrow> char" where
  "lowerChar c =
     (case map_of (zip ''ABCDEFGHIJKLMNOPQRSTUVWXYZ'' ''abcdefghijklmnopqrstuvwxyz'') c of
        Some d \<Rightarrow> d | None \<Rightarrow> c)"

text \<open>
  Modelled from the spec: \<^verbatim>\<open>extractCommandName\<close>, missing from the sources, takes the last
  path segment and removes a known executable suffix.
\<close>

definition specExtractCommandName :: "string \<Rightarrow> string" where
  "specExtractCommandName exe =
     (let seg = rev (takeWhile (\<lambda>c. c \<noteq> BSL \<and> c \<noteq> CHR ''/'') (rev exe))
      in if list_ex (\<lambda>ext. prefix (rev ext) (rev (map lowerChar seg))) [''.exe'', ''.cmd'', ''.bat'']
         then take (length seg - 4) seg else seg)"

text \<open>
  Modelled from the spec: \<^verbatim>\<open>isCommandBlocked\<close>, missing from the sources, compares the
  executable, without path and suffix and in any casing, with the blocked names.
\<close>

definition specIsCommandBlocked :: "string \<Rightarrow> string list \<Rightarrow> bool" where
  "specIsCommandBlocked exe blocked =
     list_ex (\<lambda>b. map lowerChar b = map lowerChar (specExtractCommandName exe)) blocked"

text \<open>Modelled from the spec: a literal pattern occurs in an argument.\<close>

fun occursIn :: "string \<Rightarrow> string \<Rightarrow> bool" where
  "occursIn pat [] = (pat = [])"
| "occursIn pat (c # cs) = (prefix pat (c # cs) \<or> occursIn pat cs)"

text \<open>
  Modelled from the spec: \<^verbatim>\<open>isArgumentBlocked\<close>, missing from the sources, tests every
  argument against each blocked pattern.
\<close>

definition specIsArgumentBlocked :: "string list \<Rightarrow> string list \<Rightarrow> bool" where
  "specIsArgumentBlocked as patterns = list_ex (\<lambda>a. list_ex (\<lambda>pat. occursIn pat a) patterns) as"

text \<open>
  Modelled from the spec: the tokens of a command line, split at spaces outside quotes;
  an unterminated quote is a parse error. The arguments are the open quote, the token
  being read and the rest of the line.
\<close>

fun tokens :: "char option \<Rightarrow> string \<Rightarrow> string \<Rightarrow> exn + string list" where
  "tokens None cur [] = Inr (if cur = [] then [] else [cur])"
| "tokens (Some q) cur [] = Inl (JsError ''ParseError: unterminated quote'')"
| "tokens None cur (c # cs) =
     (if c = DQ \<or> c = SQ then tokens (Some c) cur cs
      else if c = CHR '' ''
      then (if cur = [] then tokens None [] cs
            else (case tokens None [] cs of Inl e \<Rightarrow> Inl e | Inr ts \<Rightarrow> Inr (cur # ts)))
      else tokens None (cur @ [c]) cs)"
| "tokens (Some q) cur (c # cs) =
     (if c = q then tokens None cur cs else tokens (Some q) (cur @ [c]) cs)"

text \<open>
  Modelled from the spec: \<^verbatim>\<open>parseCommand\<close>, missing from the sources, gives the executable
  token and the argument tokens.
\<close>

definition specParseCommand :: "string \<Rightarrow> exn + string \<times> string list" where
  "specParseCommand raw =
     (case tokens None [] raw of
        Inl e \<Rightarrow> Inl e
      | Inr [] \<Rightarrow> Inr ([], [])
      | Inr (t # ts) \<Rightarrow> Inr (t, ts))"

text \<open>
  Modelled from the spec: the chaining and substitution operators (sequencing, background
  and conditional-and, pipe and conditional-or, command substitution).
\<close>

definition shellOperators :: "string list" where
  "shellOperators = ['';'', ''&'', ''|'', [CHR 0x60], ''$('']"

text \<open>
  Modelled from the spec: the first of the operators \<open>ops\<close> that stands outside quotes.
\<close>

fun scanOperators :: "string list \<Rightarrow> char option \<Rightarrow> string \<Rightarrow> string option" where
  "scanOperators ops q [] = None"
| "scanOperators ops None (c # cs) =
     (if c = DQ \<or> c = SQ then scanOperators ops (Some c) cs
      else (case find (\<lambda>op. prefix op (c # cs)) ops of
              Some op \<Rightarrow> Some op
            | None \<Rightarrow> scanOperators ops None cs))"
| "scanOperators ops (Some q) (c # cs) =
     (if c = q then scanOperators ops None cs else scanOperators ops (Some q) cs)"

text \<open>
  Modelled from the spec: \<^verbatim>\<open>validateShellOperators\<close>, missing from the sources, rejects an
  operator outside quotes that the shell profile does not allow.
\<close>

definition specValidateShellOperators :: "string \<Rightarrow> ShellConfig \<Rightarrow> exn option" where
  "specValidateShellOperators c sc =
     (case scanOperators (filter (\<lambda>op. op \<notin> set (shell_allowedOperators sc)) shellOperators) None c of
        None \<Rightarrow> None
      | Some op \<Rightarrow> Some (Mcp InvalidRequest (''Command contains blocked operator: '' @ op)))"

definition specValidation :: validation where
  "specValidation =
     \<lparr>validateShellOperators = specValidateShellOperators,
      parseCommand = specParseCommand,
      isCommandBlocked = specIsCommandBlocked,
      isArgumentBlocked = specIsArgumentBlocked,
      extractCommandName = specExtractCommandName\<rparr>"

section \<open>A sample configuration\<close>

text \<open>
  A configuration and a runtime for the examples: the executable \<^verbatim>\<open>format\<close> and the
  argument pattern \<^verbatim>\<open>--exec\<close> are blocked, commands have at most 20 characters, at most 10
  characters of output are kept, the history holds 2 entries and a command may run 30
  seconds; one remote connection, \<^verbatim>\<open>pi\<close>, is configured.
\<close>

definition sampleShell :: ShellConfig where
  "sampleShell =
     \<lparr>shell_enabled = True, shell_command = ''cmd.exe'', shell_args = [''/c''],
      shell_allowedOperators = []\<rparr>"

definition sampleSecurity :: SecurityConfig where
  "sampleSecurity =
     \<lparr>maxCommandLength = 20, blockedCommands = [''format''], blockedArguments = [''--exec''],
      allowedPaths = [], restrictWorkingDirectory = False, logCommands = True,
      maxHistorySize = 2, commandTimeout = 30, enableInjectionProtection = True,
      maxOutputSize = 10, enableOutputFiles = False, outputDirectory = None,
      outputFileRetentionHours = 24\<rparr>"

definition sampleConnection :: SSHConnectionConfig where
  "sampleConnection =
     \<lparr>ssh_host = ''raspberrypi.local'', ssh_port = 22, ssh_username = ''pi'',
      ssh_password = ''raspberry''\<rparr>"

definition sampleConfig :: ServerConfig where
  "sampleConfig =
     \<lparr>security = sampleSecurity, shells = (\<lambda>k. sampleShell),
      ssh = \<lparr>ssh_enabled = True, ssh_connections = [''pi'' \<mapsto> sampleConnection]\<rparr>\<rparr>"

text \<open>The JSON-RPC numbers of the error codes, which the SDK puts into the message.\<close>

fun errorNumber :: "ErrorCode \<Rightarrow> int" where
  "errorNumber InvalidRequest = - 32600"
| "errorNumber MethodNotFound = - 32601"
| "errorNumber InvalidParams = - 32602"
| "errorNumber InternalError = - 32603"

definition sampleHost :: host where
  "sampleHost =
     \<lparr>megabytes = (\<lambda>n. numberString n @ ''/1048576''), pathResolve = (\<lambda>d. d),
      pathJoin = (\<lambda>dir name. dir @ [BSL] @ name),
      readdirSync = (\<lambda>paths dir.
         Some (map (drop (length dir + 1))
                 (filter (\<lambda>path. prefix (dir @ [BSL]) path \<and> BSL \<notin> set (drop (length dir + 1) path))
                    paths))),
      cwd = ''C:'' @ [BSL] @ ''work'', tmpdir = ''C:'' @ [BSL] @ ''tmp'',
      toISOString = (\<lambda>t. ''T'' @ numberString t @ ''.000Z''),
      mcpMessage = (\<lambda>c m. ''MCP error '' @ numberString (errorNumber c) @ '': '' @ m),
      zodInvalidEnum = (\<lambda>ns n. ''Invalid enum value''),
      zodTooSmall = (\<lambda>n. ''Number must be greater than or equal to '' @ numberString n),
      zodTooBig = (\<lambda>n. ''Number must be less than or equal to '' @ numberString n),
      zodRequired = ''Required'',
      zodExpectedObject = (\<lambda>received. ''Expected object, received '' @ received),
      zodExpectedNumber = (\<lambda>received. ''Expected number, received '' @ received),
      zodErrorMessage = joinComma\<rparr>"

definition emptyServer :: server where
  "emptyServer = \<lparr>commandHistory = [], fs = [], spawnCalls = [], poolCalls = []\<rparr>"

section \<open>Runs of one invocation\<close>

text \<open>The events that carry a chunk of output.\<close>

fun isData :: "event \<Rightarrow> bool" where
  "isData (Stdout chunk) = True"
| "isData (Stderr chunk) = True"
| "isData ev = False"

definition dataOnly :: "(int \<times> event) list \<Rightarrow> bool" where
  "dataOnly es = list_all (\<lambda>e. isData (snd e)) es"




text \<open>The chunks a run receives on standard output, and the text each stream carries.\<close>

fun stdoutChunks :: "(int \<times> event) list \<Rightarrow> string list" where
  "stdoutChunks [] = []"
| "stdoutChunks ((t, Stdout chunk) # es) = chunk # stdoutChunks es"
| "stdoutChunks (e # es) = stdoutChunks es"

definition stdoutText :: "(int \<times> event) list \<Rightarrow> string" where
  "stdoutText es = concat (stdoutChunks es)"

fun stderrText :: "(int \<times> event) list \<Rightarrow> string" where
  "stderrText [] = []"
| "stderrText ((t, Stderr chunk) # es) = chunk @ stderrText es"
| "stderrText (e # es) = stderrText es"

section \<open>Further examples\<close>

text \<open>The sample configuration with remote execution switched off.\<close>

definition sshOffConfig :: ServerConfig where
  "sshOffConfig = sampleConfig\<lparr>ssh := \<lparr>ssh_enabled = False, ssh_connections = [''pi'' \<mapsto> sampleConnection]\<rparr>\<rparr>"

text \<open>
  The sample configuration with the operator rules of the other two shell profiles
  relaxed: they allow every operator, the \<^verbatim>\<open>cmd\<close> profile none.
\<close>

definition otherShellsOpen :: ServerConfig where
  "otherShellsOpen =
     sampleConfig\<lparr>shells := (\<lambda>k. if k = Cmd then sampleShell
                                else sampleShell\<lparr>shell_allowedOperators := shellOperators\<rparr>)\<rparr>"

text \<open>The sample configuration without history, and with room for ten entries.\<close>

definition historyOffConfig :: ServerConfig where
  "historyOffConfig = sampleConfig\<lparr>security := sampleSecurity\<lparr>logCommands := False\<rparr>\<rparr>"

definition longHistoryConfig :: ServerConfig where
  "longHistoryConfig = sampleConfig\<lparr>security := sampleSecurity\<lparr>maxHistorySize := 10\<rparr>\<rparr>"

text \<open>A server that has run three commands; the output of the last has 1003 characters.\<close>

definition entryOf :: "string \<Rightarrow> string \<Rightarrow> CommandHistoryEntry" where
  "entryOf c out = \<lparr>h_command = c, h_output = out, h_timestamp = ''T'', h_exitCode = 0, h_connectionId = None\<rparr>"

definition threeRuns :: server where
  "threeRuns = emptyServer\<lparr>commandHistory :=
       [entryOf ''a'' ''one'', entryOf ''b'' ''two'', entryOf ''c'' (replicate 1003 (CHR ''x''))]\<rparr>"

text \<open>
  Modelled from the spec: the history tool as the specification words it. The limit, 10
  when none is given, is brought into the range from 1 to \<^verbatim>\<open>maxHistorySize\<close>, and the last so
  many entries are returned.
\<close>

definition spec_get_command_history :: "ServerConfig \<Rightarrow> rat option \<Rightarrow> server \<Rightarrow> exn + ToolResult" where
  "spec_get_command_history cfg limit s =
     (if \<not> logCommands (security cfg)
      then Inr \<lparr>content = Text historyDisabledNotice, isError = None, metadata = None\<rparr>
      else let l = max 1 (min (of_int (maxHistorySize (security cfg)))
                            (case limit of None \<Rightarrow> 10 | Some n \<Rightarrow> n))
           in Inr \<lparr>content = Json (map (\<lambda>entry. entry\<lparr>h_output := take 1000 (h_output entry)\<rparr>)
                                     (drop (length (commandHistory s) - nat \<lfloor>l\<rfloor>) (commandHistory s))),
                   isError = None, metadata = None\<rparr>)"


definition sampleProc :: proc where
  "sampleProc = spawned sampleConfig ''dir'' Cmd (cwd sampleHost) 0"



text \<open>
  A remote execution whose connection attempt fails, under the sample configuration, and a
  server whose history is at the sample cap of two entries.
\<close>

definition failedRemote :: "int \<Rightarrow> server \<Rightarrow> server" where
  "failedRemote now s =
     snd (ssh_execute sampleHost specValidation sampleConfig ''pi'' ''dir''
            (ConnectFails ''Connection refused'') now s)"

definition twoRuns :: server where
  "twoRuns = emptyServer\<lparr>commandHistory := [entryOf ''a'' ''one'', entryOf ''b'' ''two'']\<rparr>"

text \<open>
  Two runs for the sample cap of 10 characters: one where standard error fills most of the
  budget before standard output writes, and one that stays within it.
\<close>

definition stderrFirst :: "(int \<times> event) list" where
  "stderrFirst = [(1, Stderr ''12345678''), (2, Stdout ''abcde''), (3, Stderr ''vwxyz'')]"

definition smallRun :: "(int \<times> event) list" where
  "smallRun = [(1, Stderr ''1234''), (2, Stdout ''abcde'')]"







section \<open>What the handlers leave alone\<close>

text \<open>
  A run is the fold of \<open>handle\<close> over the events. Data events leave the promise, the timer,
  the process and the history alone; a settled promise stays as it is; a cleared timer
  stays cleared, and then the timer's callback does nothing.
\<close>

lemma run_append: "run env cfg (es @ es') ps = run env cfg es' (run env cfg es ps)"
  by (induction es arbitrary: ps) simp_all

lemma settle_frame:
  "timer (settle r p) = timer p" "killed (settle r p) = killed p"
  "p_command (settle r p) = p_command p" "outputBuf (settle r p) = outputBuf p"
  "errorBuf (settle r p) = errorBuf p" "outputSize (settle r p) = outputSize p"
  "truncated (settle r p) = truncated p" "outputFilePath (settle r p) = outputFilePath p"
  "p_shell (settle r p) = p_shell p" "p_workingDir (settle r p) = p_workingDir p"
  by (simp_all add: settle_def split: option.splits)

lemma settle_promise:
  "promise (settle r p) = (case promise p of None \<Rightarrow> Some r | Some r' \<Rightarrow> Some r')"
  by (simp add: settle_def split: option.splits)

lemma onStdout_frame:
  "promise (fst (onStdout env cfg now chunk ps)) = promise (fst ps)"
  "timer (fst (onStdout env cfg now chunk ps)) = timer (fst ps)"
  "killed (fst (onStdout env cfg now chunk ps)) = killed (fst ps)"
  "p_command (fst (onStdout env cfg now chunk ps)) = p_command (fst ps)"
  "p_shell (fst (onStdout env cfg now chunk ps)) = p_shell (fst ps)"
  "p_workingDir (fst (onStdout env cfg now chunk ps)) = p_workingDir (fst ps)"
  "commandHistory (snd (onStdout env cfg now chunk ps)) = commandHistory (snd ps)"
  by (simp_all add: onStdout_def saveToFile_def appendFile_def Let_def split: prod.splits option.splits)

lemma onStderr_frame:
  "promise (fst (onStderr cfg chunk ps)) = promise (fst ps)"
  "timer (fst (onStderr cfg chunk ps)) = timer (fst ps)"
  "killed (fst (onStderr cfg chunk ps)) = killed (fst ps)"
  "p_command (fst (onStderr cfg chunk ps)) = p_command (fst ps)"
  "p_shell (fst (onStderr cfg chunk ps)) = p_shell (fst ps)"
  "p_workingDir (fst (onStderr cfg chunk ps)) = p_workingDir (fst ps)"
  "snd (onStderr cfg chunk ps) = snd ps"
  by (simp_all add: onStderr_def split: prod.splits)

lemma handle_data_frame:
  assumes "isData ev"
  shows "promise (fst (handle env cfg (t, ev) ps)) = promise (fst ps)"
    and "timer (fst (handle env cfg (t, ev) ps)) = timer (fst ps)"
    and "killed (fst (handle env cfg (t, ev) ps)) = killed (fst ps)"
    and "p_command (fst (handle env cfg (t, ev) ps)) = p_command (fst ps)"
    and "p_shell (fst (handle env cfg (t, ev) ps)) = p_shell (fst ps)"
    and "p_workingDir (fst (handle env cfg (t, ev) ps)) = p_workingDir (fst ps)"
    and "commandHistory (snd (handle env cfg (t, ev) ps)) = commandHistory (snd ps)"
  using assms by (cases ev; simp add: onStdout_frame onStderr_frame)+

lemma run_data_frame:
  assumes "dataOnly es"
  shows "promise (fst (run env cfg es ps)) = promise (fst ps)
     \<and> timer (fst (run env cfg es ps)) = timer (fst ps)
     \<and> killed (fst (run env cfg es ps)) = killed (fst ps)
     \<and> p_command (fst (run env cfg es ps)) = p_command (fst ps)
     \<and> p_shell (fst (run env cfg es ps)) = p_shell (fst ps)
     \<and> p_workingDir (fst (run env cfg es ps)) = p_workingDir (fst ps)
     \<and> commandHistory (snd (run env cfg es ps)) = commandHistory (snd ps)"
  using assms
proof (induction es arbitrary: ps)
  case Nil
  then show ?case by simp
next
  case (Cons e es)
  obtain t ev where e: "e = (t, ev)" by (cases e)
  from Cons.prems have d: "isData ev" and r: "dataOnly es"
    by (simp_all add: dataOnly_def e)
  show ?case
    by (simp add: e Cons.IH [OF r] handle_data_frame [OF d])
qed




lemma cleanupOutputFiles_frame:
  "commandHistory (cleanupOutputFiles env cfg now s) = commandHistory s"
  by (simp add: cleanupOutputFiles_def split: option.splits)

lemma onClose_history:
  "logCommands (security cfg) \<Longrightarrow>
     commandHistory (snd (onClose env cfg now code ps))
       = trimHistory cfg (commandHistory (snd ps) @
           [\<lparr>h_command = p_command (fst ps), h_output = resultMessage env cfg code (fst ps),
             h_timestamp = toISOString env now, h_exitCode = exitCodeOf code,
             h_connectionId = None\<rparr>])"
  by (cases ps) (simp add: onClose_def Let_def cleanupOutputFiles_frame)



lemma onTimeout_fires:
  assumes "timer (fst ps) = Some due" and "due \<le> now"
  shows "killed (fst (onTimeout env cfg now ps))"
    and "timer (fst (onTimeout env cfg now ps)) = None"
    and "p_command (fst (onTimeout env cfg now ps)) = p_command (fst ps)"
    and "promise (fst ps) = None \<Longrightarrow>
           promise (fst (onTimeout env cfg now ps)) = Some (Inl (Mcp InternalError (timeoutMessage cfg)))"
    and "logCommands (security cfg) \<Longrightarrow>
           commandHistory (snd (onTimeout env cfg now ps))
             = commandHistory (snd ps) @
                 [\<lparr>h_command = p_command (fst ps), h_output = timeoutMessage cfg,
                   h_timestamp = toISOString env now, h_exitCode = - 1, h_connectionId = None\<rparr>]"
  using assms by (cases ps; simp add: onTimeout_def Let_def settle_frame settle_promise)+








section \<open>Validation order\<close>

text \<open>
  C7: command validation applies its checks in a fixed short-circuit order. When injection
  protection is on and the operator check throws, that is the rejection, whatever the
  later checks would say. Otherwise, for the parsed command: a blocked executable is
  rejected with a message naming the display name of the executable token, whatever the
  arguments and the length are; failing that, a blocked argument is rejected with one
  fixed message, which names neither the argument nor the pattern; failing that, a command
  longer than the maximum is rejected; and a command that passes all four is accepted.
\<close>

theorem validateCommand_order:
  "(enableInjectionProtection (security cfg) \<and> validateShellOperators u c (shells cfg sh) = Some e
      \<longrightarrow> validateCommand u cfg sh c = Inl e)
   \<and> ((enableInjectionProtection (security cfg) \<longrightarrow> validateShellOperators u c (shells cfg sh) = None)
        \<and> parseCommand u c = Inr (exe, as)
      \<longrightarrow>
        (isCommandBlocked u exe (setArray (blockedCommands (security cfg)))
           \<longrightarrow> validateCommand u cfg sh c
                 = Inl (Mcp InvalidRequest
                     (''Command is blocked: '' @ [DQ] @ extractCommandName u exe @ [DQ])))
        \<and> (\<not> isCommandBlocked u exe (setArray (blockedCommands (security cfg)))
             \<and> isArgumentBlocked u as (blockedArguments (security cfg))
           \<longrightarrow> validateCommand u cfg sh c = Inl (Mcp InvalidRequest blockedArgumentMessage))
        \<and> (\<not> isCommandBlocked u exe (setArray (blockedCommands (security cfg)))
             \<and> \<not> isArgumentBlocked u as (blockedArguments (security cfg))
             \<and> int (length c) > maxCommandLength (security cfg)
           \<longrightarrow> validateCommand u cfg sh c
                 = Inl (Mcp InvalidRequest
                     (''Command exceeds maximum length of ''
                        @ numberString (maxCommandLength (security cfg)))))
        \<and> (\<not> isCommandBlocked u exe (setArray (blockedCommands (security cfg)))
             \<and> \<not> isArgumentBlocked u as (blockedArguments (security cfg))
             \<and> int (length c) \<le> maxCommandLength (security cfg)
           \<longrightarrow> validateCommand u cfg sh c = Inr ()))"
  by (simp add: validateCommand_def)

text \<open>
  Five commands under the sample configuration, one for each outcome: the first fails
  every check and is rejected for its operator, the second has a blocked executable and
  a blocked argument, the third a blocked argument, the fourth is only too long.
\<close>

theorem validateCommand_order_witness:
  "validateCommand specValidation sampleConfig Cmd ''FORMAT.EXE c: & dir --exec=1 xxxxxxxx''
     = Inl (Mcp InvalidRequest ''Command contains blocked operator: &'')
   \<and> validateCommand specValidation sampleConfig Cmd ''C:/bin/Format.exe --exec=1 xxxxxxxx''
     = Inl (Mcp InvalidRequest (''Command is blocked: '' @ [DQ] @ ''Format'' @ [DQ]))
   \<and> validateCommand specValidation sampleConfig Cmd ''dir --exec=1 xxxxxxxxxxxxxx''
     = Inl (Mcp InvalidRequest blockedArgumentMessage)
   \<and> validateCommand specValidation sampleConfig Cmd ''dir xxxxxxxxxxxxxxxxxxxxxxx''
     = Inl (Mcp InvalidRequest ''Command exceeds maximum length of 20'')
   \<and> validateCommand specValidation sampleConfig Cmd ''dir /b'' = Inr ()"
proof -
  note t = validateCommand_order [where u = specValidation and cfg = sampleConfig and sh = Cmd]
  note first = t [THEN conjunct1, THEN mp, OF conjI]
  note later = t [THEN conjunct2, THEN mp, OF conjI, OF impI]
  have on: "enableInjectionProtection (security sampleConfig)"
    by code_simp
  have a: "validateShellOperators specValidation ''FORMAT.EXE c: & dir --exec=1 xxxxxxxx''
             (shells sampleConfig Cmd)
           = Some (Mcp InvalidRequest ''Command contains blocked operator: &'')"
    by code_simp
  have b: "validateShellOperators specValidation ''C:/bin/Format.exe --exec=1 xxxxxxxx''
             (shells sampleConfig Cmd) = None"
          "parseCommand specValidation ''C:/bin/Format.exe --exec=1 xxxxxxxx''
             = Inr (''C:/bin/Format.exe'', [''--exec=1'', ''xxxxxxxx''])"
          "isCommandBlocked specValidation ''C:/bin/Format.exe''
             (setArray (blockedCommands (security sampleConfig)))"
          "extractCommandName specValidation ''C:/bin/Format.exe'' = ''Format''"
    by code_simp+
  have c: "validateShellOperators specValidation ''dir --exec=1 xxxxxxxxxxxxxx''
             (shells sampleConfig Cmd) = None"
          "parseCommand specValidation ''dir --exec=1 xxxxxxxxxxxxxx''
             = Inr (''dir'', [''--exec=1'', ''xxxxxxxxxxxxxx''])"
          "\<not> isCommandBlocked specValidation ''dir''
             (setArray (blockedCommands (security sampleConfig)))"
          "isArgumentBlocked specValidation [''--exec=1'', ''xxxxxxxxxxxxxx'']
             (blockedArguments (security sampleConfig))"
    by code_simp+
  have d: "validateShellOperators specValidation ''dir xxxxxxxxxxxxxxxxxxxxxxx''
             (shells sampleConfig Cmd) = None"
          "parseCommand specValidation ''dir xxxxxxxxxxxxxxxxxxxxxxx''
             = Inr (''dir'', [''xxxxxxxxxxxxxxxxxxxxxxx''])"
          "\<not> isArgumentBlocked specValidation [''xxxxxxxxxxxxxxxxxxxxxxx'']
             (blockedArguments (security sampleConfig))"
          "int (length ''dir xxxxxxxxxxxxxxxxxxxxxxx'') > maxCommandLength (security sampleConfig)"
          "numberString (maxCommandLength (security sampleConfig)) = ''20''"
    by code_simp+
  have e: "validateShellOperators specValidation ''dir /b'' (shells sampleConfig Cmd) = None"
          "parseCommand specValidation ''dir /b'' = Inr (''dir'', [''/b''])"
          "\<not> isArgumentBlocked specValidation [''/b''] (blockedArguments (security sampleConfig))"
          "int (length ''dir /b'') \<le> maxCommandLength (security sampleConfig)"
    by code_simp+
  have 1: "validateCommand specValidation sampleConfig Cmd ''FORMAT.EXE c: & dir --exec=1 xxxxxxxx''
     = Inl (Mcp InvalidRequest ''Command contains blocked operator: &'')"
    by (rule first [OF on a])
  have 2: "validateCommand specValidation sampleConfig Cmd ''C:/bin/Format.exe --exec=1 xxxxxxxx''
     = Inl (Mcp InvalidRequest (''Command is blocked: '' @ [DQ] @ ''Format'' @ [DQ]))"
    using later [OF b(1) b(2), THEN conjunct1, THEN mp, OF b(3)] by (simp only: b(4))
  have 3: "validateCommand specValidation sampleConfig Cmd ''dir --exec=1 xxxxxxxxxxxxxx''
     = Inl (Mcp InvalidRequest blockedArgumentMessage)"
    by (rule later [OF c(1) c(2), THEN conjunct2, THEN conjunct1, THEN mp, OF conjI, OF c(3) c(4)])
  have 4: "validateCommand specValidation sampleConfig Cmd ''dir xxxxxxxxxxxxxxxxxxxxxxx''
     = Inl (Mcp InvalidRequest ''Command exceeds maximum length of 20'')"
    using later [OF d(1) d(2), THEN conjunct2, THEN conjunct2, THEN conjunct1, THEN mp,
                 OF conjI, OF c(3) conjI, OF d(3) d(4)]
    by (simp add: d(5))
  have 5: "validateCommand specValidation sampleConfig Cmd ''dir /b'' = Inr ()"
    by (rule later [OF e(1) e(2), THEN conjunct2, THEN conjunct2, THEN conjunct2, THEN mp,
                 OF conjI, OF c(3) conjI, OF e(3) e(4)])
  show ?thesis
    by (intro conjI) (rule 1 2 3 4 5)+
qed

section \<open>Remote execution\<close>

text \<open>
  C10: a call of \<^verbatim>\<open>ssh_disconnect\<close> while SSH support is disabled is rejected with an
  invalid-request error, and the server state, the log of calls to the session pool
  included, is what it was.
\<close>

theorem ssh_disconnect_disabled:
  "\<not> ssh_enabled (ssh cfg) \<Longrightarrow>
     ssh_disconnect cfg connectionId closeFails s = (Inl (Mcp InvalidRequest sshDisabledMessage), s)"
  by (simp add: ssh_disconnect_def)

theorem ssh_disconnect_disabled_witness:
  "\<not> ssh_enabled (ssh sshOffConfig)
   \<and> ssh_disconnect sshOffConfig ''pi'' None emptyServer
       = (Inl (Mcp InvalidRequest ''SSH support is disabled in configuration''), emptyServer)"
proof -
  have h: "\<not> ssh_enabled (ssh sshOffConfig)"
    by (simp add: sshOffConfig_def)
  from ssh_disconnect_disabled [OF h, of "''pi''" None emptyServer] h show ?thesis
    by (simp add: sshDisabledMessage_def)
qed

text \<open>
  Whether \<open>ssh_try\<close> and \<open>ssh_execute\<close> accept a command depends on the configuration only
  through the security settings, the SSH settings and the \<^verbatim>\<open>cmd\<close> shell profile.
\<close>

lemma ssh_try_cong:
  assumes a: "shells cfg' Cmd = shells cfg Cmd" and b: "security cfg' = security cfg"
  shows "ssh_try env u cfg' connectionId c r now s = ssh_try env u cfg connectionId c r now s"
  unfolding ssh_try_def validateCommand_def trimHistory_def a b ..

lemma ssh_execute_cong:
  assumes a: "shells cfg' Cmd = shells cfg Cmd" and b: "security cfg' = security cfg"
    and c: "ssh cfg' = ssh cfg"
  shows "ssh_execute env u cfg' connectionId c r now s = ssh_execute env u cfg connectionId c r now s"
  unfolding ssh_execute_def ssh_try_cong [OF a b] b c ..

text \<open>
  C8: \<^verbatim>\<open>ssh_execute\<close> validates the remote command with the \<^verbatim>\<open>cmd\<close> shell profile, whichever
  connection is named: two configurations that agree on the security settings, the SSH
  settings and the \<^verbatim>\<open>cmd\<close> profile give the same outcome, whatever their other profiles say;
  a command that \<open>validateCommand\<close> rejects under the \<^verbatim>\<open>cmd\<close> profile fails before the
  session pool is called; and one that it accepts goes on to \<^verbatim>\<open>getConnection\<close>.
\<close>

theorem ssh_execute_uses_cmd_profile:
  "(shells cfg' Cmd = shells cfg Cmd \<and> security cfg' = security cfg \<and> ssh cfg' = ssh cfg \<longrightarrow>
      ssh_execute env u cfg' connectionId c r now s = ssh_execute env u cfg connectionId c r now s)
   \<and> (ssh_enabled (ssh cfg) \<and> ssh_connections (ssh cfg) connectionId = Some cc
        \<and> validateCommand u cfg Cmd c = Inl e \<longrightarrow>
      fst (ssh_execute env u cfg connectionId c r now s)
        = Inl (Mcp InternalError (''SSH error: '' @ exnMessage env e))
      \<and> poolCalls (snd (ssh_execute env u cfg connectionId c r now s)) = poolCalls s)
   \<and> (ssh_enabled (ssh cfg) \<and> ssh_connections (ssh cfg) connectionId = Some cc
        \<and> validateCommand u cfg Cmd c = Inr () \<longrightarrow>
      take (Suc (length (poolCalls s))) (poolCalls (snd (ssh_execute env u cfg connectionId c r now s)))
        = poolCalls s @ [GetConnection connectionId])"
proof (intro conjI impI)
  assume "shells cfg' Cmd = shells cfg Cmd \<and> security cfg' = security cfg \<and> ssh cfg' = ssh cfg"
  then show "ssh_execute env u cfg' connectionId c r now s = ssh_execute env u cfg connectionId c r now s"
    by (intro ssh_execute_cong) simp_all
next
  assume a: "ssh_enabled (ssh cfg) \<and> ssh_connections (ssh cfg) connectionId = Some cc
        \<and> validateCommand u cfg Cmd c = Inl e"
  then show "fst (ssh_execute env u cfg connectionId c r now s)
        = Inl (Mcp InternalError (''SSH error: '' @ exnMessage env e))"
    by (simp add: ssh_execute_def ssh_try_def Let_def)
  from a show "poolCalls (snd (ssh_execute env u cfg connectionId c r now s)) = poolCalls s"
    by (simp add: ssh_execute_def ssh_try_def Let_def)
next
  assume a: "ssh_enabled (ssh cfg) \<and> ssh_connections (ssh cfg) connectionId = Some cc
        \<and> validateCommand u cfg Cmd c = Inr ()"
  then show "take (Suc (length (poolCalls s))) (poolCalls (snd (ssh_execute env u cfg connectionId c r now s)))
        = poolCalls s @ [GetConnection connectionId]"
    by (cases r) (simp_all add: ssh_execute_def ssh_try_def Let_def)
qed

text \<open>
  Under the relaxed configuration the \<^verbatim>\<open>powershell\<close> profile accepts \<^verbatim>\<open>dir & dir\<close>, and
  \<^verbatim>\<open>ssh_execute\<close> still rejects it, as under the sample configuration.
\<close>

theorem ssh_execute_uses_cmd_profile_witness:
  "validateCommand specValidation otherShellsOpen Powershell ''dir & dir'' = Inr ()
   \<and> ssh_execute sampleHost specValidation otherShellsOpen ''pi'' ''dir & dir'' (Executed ''ok'' 0) 7 emptyServer
       = ssh_execute sampleHost specValidation sampleConfig ''pi'' ''dir & dir'' (Executed ''ok'' 0) 7 emptyServer
   \<and> fst (ssh_execute sampleHost specValidation otherShellsOpen ''pi'' ''dir & dir'' (Executed ''ok'' 0) 7 emptyServer)
       = Inl (Mcp InternalError ''SSH error: MCP error -32600: Command contains blocked operator: &'')
   \<and> poolCalls (snd (ssh_execute sampleHost specValidation otherShellsOpen ''pi'' ''dir & dir''
                       (Executed ''ok'' 0) 7 emptyServer)) = []
   \<and> take 1 (poolCalls (snd (ssh_execute sampleHost specValidation otherShellsOpen ''pi'' ''dir''
                               (Executed ''ok'' 0) 7 emptyServer))) = [GetConnection ''pi'']"
proof -
  note t = ssh_execute_uses_cmd_profile [where env = sampleHost and u = specValidation
             and cfg = otherShellsOpen and connectionId = "''pi''" and r = "Executed ''ok'' 0"
             and now = 7 and s = emptyServer and cc = sampleConnection]
  have other: "validateCommand specValidation otherShellsOpen Powershell ''dir & dir'' = Inr ()"
    by code_simp
  have same: "shells sampleConfig Cmd = shells otherShellsOpen Cmd
      \<and> security sampleConfig = security otherShellsOpen \<and> ssh sampleConfig = ssh otherShellsOpen"
    by (simp add: otherShellsOpen_def sampleConfig_def)
  have bad: "ssh_enabled (ssh otherShellsOpen) \<and> ssh_connections (ssh otherShellsOpen) ''pi'' = Some sampleConnection
      \<and> validateCommand specValidation otherShellsOpen Cmd ''dir & dir''
          = Inl (Mcp InvalidRequest ''Command contains blocked operator: &'')"
    by code_simp
  have good: "ssh_enabled (ssh otherShellsOpen) \<and> ssh_connections (ssh otherShellsOpen) ''pi'' = Some sampleConnection
      \<and> validateCommand specValidation otherShellsOpen Cmd ''dir'' = Inr ()"
    by code_simp
  have msg: "''SSH error: '' @ exnMessage sampleHost (Mcp InvalidRequest ''Command contains blocked operator: &'')
      = ''SSH error: MCP error -32600: Command contains blocked operator: &''"
    by code_simp
  have none: "poolCalls emptyServer = []" "Suc (length (poolCalls emptyServer)) = 1"
      "poolCalls emptyServer @ [GetConnection ''pi''] = [GetConnection ''pi'']"
    by (simp_all add: emptyServer_def)
  have 1: "ssh_execute sampleHost specValidation otherShellsOpen ''pi'' ''dir & dir'' (Executed ''ok'' 0) 7 emptyServer
       = ssh_execute sampleHost specValidation sampleConfig ''pi'' ''dir & dir'' (Executed ''ok'' 0) 7 emptyServer"
    by (rule t [where cfg' = sampleConfig, THEN conjunct1, THEN mp, OF same, symmetric])
  have 2: "fst (ssh_execute sampleHost specValidation otherShellsOpen ''pi'' ''dir & dir'' (Executed ''ok'' 0) 7 emptyServer)
       = Inl (Mcp InternalError ''SSH error: MCP error -32600: Command contains blocked operator: &'')"
    using t [THEN conjunct2, THEN conjunct1, THEN mp, OF bad, THEN conjunct1] by (simp only: msg)
  have 3: "poolCalls (snd (ssh_execute sampleHost specValidation otherShellsOpen ''pi'' ''dir & dir''
                       (Executed ''ok'' 0) 7 emptyServer)) = []"
    using t [THEN conjunct2, THEN conjunct1, THEN mp, OF bad, THEN conjunct2] by (simp only: none)
  have 4: "take 1 (poolCalls (snd (ssh_execute sampleHost specValidation otherShellsOpen ''pi'' ''dir''
                               (Executed ''ok'' 0) 7 emptyServer))) = [GetConnection ''pi'']"
    using t [THEN conjunct2, THEN conjunct2, THEN mp, OF good] by (simp add: none)
  show ?thesis
    by (intro conjI) (rule other 1 2 3 4)+
qed

section \<open>Timeout and close\<close>




text \<open>A history that is within the cap is not trimmed.\<close>

lemma trimHistory_fits:
  "int (length h) \<le> maxHistorySize (security cfg) \<Longrightarrow> trimHistory cfg h = h"
  by (simp add: trimHistory_def)

text \<open>
  C9: with command logging enabled, when the timer fires and the close event of the killed
  process arrives afterwards (with data events at most in between), the history receives
  two entries for the command: the timeout entry with exit code -1, and after it the entry
  of the close handler with the result message; the close handler then trims the history.
  When the two entries fit under the cap the history is the old one followed by them.
\<close>

theorem timeout_then_close_history:
  "logCommands (security cfg) \<and> timer p = Some due \<and> due \<le> t1 \<and> dataOnly ds \<longrightarrow>
     commandHistory (snd (run env cfg ((t1, Timeout) # ds @ [(t2, Close code)]) (p, s)))
       = trimHistory cfg (commandHistory s @
           [\<lparr>h_command = p_command p, h_output = timeoutMessage cfg,
             h_timestamp = toISOString env t1, h_exitCode = - 1, h_connectionId = None\<rparr>,
            \<lparr>h_command = p_command p,
             h_output = resultMessage env cfg code (fst (run env cfg ((t1, Timeout) # ds) (p, s))),
             h_timestamp = toISOString env t2, h_exitCode = exitCodeOf code,
             h_connectionId = None\<rparr>])
     \<and> (int (length (commandHistory s)) + 2 \<le> maxHistorySize (security cfg) \<longrightarrow>
          commandHistory (snd (run env cfg ((t1, Timeout) # ds @ [(t2, Close code)]) (p, s)))
            = commandHistory s @
              [\<lparr>h_command = p_command p, h_output = timeoutMessage cfg,
                h_timestamp = toISOString env t1, h_exitCode = - 1, h_connectionId = None\<rparr>,
               \<lparr>h_command = p_command p,
                h_output = resultMessage env cfg code (fst (run env cfg ((t1, Timeout) # ds) (p, s))),
                h_timestamp = toISOString env t2, h_exitCode = exitCodeOf code,
                h_connectionId = None\<rparr>])"
proof
  assume a: "logCommands (security cfg) \<and> timer p = Some due \<and> due \<le> t1 \<and> dataOnly ds"
  let ?p1 = "onTimeout env cfg t1 (p, s)"
  let ?p2 = "run env cfg ds ?p1"
  let ?both = "commandHistory s @
           [\<lparr>h_command = p_command p, h_output = timeoutMessage cfg,
             h_timestamp = toISOString env t1, h_exitCode = - 1, h_connectionId = None\<rparr>,
            \<lparr>h_command = p_command p,
             h_output = resultMessage env cfg code (fst (run env cfg ((t1, Timeout) # ds) (p, s))),
             h_timestamp = toISOString env t2, h_exitCode = exitCodeOf code,
             h_connectionId = None\<rparr>]"
  from a have l: "logCommands (security cfg)" and tm: "timer (fst (p, s)) = Some due"
    and due: "due \<le> t1" and ds: "dataOnly ds"
    by simp_all
  have h1: "commandHistory (snd ?p1) = commandHistory s @
                 [\<lparr>h_command = p_command p, h_output = timeoutMessage cfg,
                   h_timestamp = toISOString env t1, h_exitCode = - 1, h_connectionId = None\<rparr>]"
    using onTimeout_fires(5) [OF tm due l, of env] by simp
  have c1: "p_command (fst ?p1) = p_command p"
    using onTimeout_fires(3) [OF tm due, of env cfg] by simp
  have h2: "commandHistory (snd ?p2) = commandHistory (snd ?p1)"
    and c2: "p_command (fst ?p2) = p_command (fst ?p1)"
    using run_data_frame [OF ds, of env cfg ?p1] by simp_all
  have "run env cfg ((t1, Timeout) # ds @ [(t2, Close code)]) (p, s) = onClose env cfg t2 code ?p2"
    by (simp add: run_append)
  then have all: "commandHistory (snd (run env cfg ((t1, Timeout) # ds @ [(t2, Close code)]) (p, s)))
       = trimHistory cfg ?both"
    by (simp add: onClose_history [OF l] h1 h2 c1 c2)
  have fits: "trimHistory cfg ?both = ?both"
    if "int (length (commandHistory s)) + 2 \<le> maxHistorySize (security cfg)"
    by (rule trimHistory_fits) (use that in simp)
  from all fits
  show "commandHistory (snd (run env cfg ((t1, Timeout) # ds @ [(t2, Close code)]) (p, s)))
       = trimHistory cfg ?both
     \<and> (int (length (commandHistory s)) + 2 \<le> maxHistorySize (security cfg) \<longrightarrow>
          commandHistory (snd (run env cfg ((t1, Timeout) # ds @ [(t2, Close code)]) (p, s))) = ?both)"
    by simp
qed

text \<open>
  A timed-out run under the sample configuration: the history, empty before, holds the
  timeout entry and the entry of the close handler.
\<close>

theorem timeout_then_close_history_witness:
  "commandHistory (snd (run sampleHost sampleConfig
       [(30000, Timeout), (30001, Stderr ''killed''), (30002, Close None)] (sampleProc, emptyServer)))
     = [\<lparr>h_command = ''dir'', h_output = timeoutMessage sampleConfig,
          h_timestamp = ''T30000.000Z'', h_exitCode = - 1, h_connectionId = None\<rparr>,
        \<lparr>h_command = ''dir'',
          h_output = ''Command failed with exit code null'' @ [NL] @ ''Error output:'' @ [NL]
                       @ ''killed'' @ [NL],
          h_timestamp = ''T30002.000Z'', h_exitCode = - 1, h_connectionId = None\<rparr>]"
proof -
  have hyp: "logCommands (security sampleConfig) \<and> timer sampleProc = Some 30000
      \<and> (30000::int) \<le> 30000 \<and> dataOnly [(30001, Stderr ''killed'')]"
    by code_simp
  have fits: "int (length (commandHistory emptyServer)) + 2 \<le> maxHistorySize (security sampleConfig)"
    by code_simp
  have vals: "commandHistory emptyServer = []" "p_command sampleProc = ''dir''"
      "toISOString sampleHost 30000 = ''T30000.000Z''" "toISOString sampleHost 30002 = ''T30002.000Z''"
      "exitCodeOf None = - 1"
      "resultMessage sampleHost sampleConfig None
         (fst (run sampleHost sampleConfig [(30000, Timeout), (30001, Stderr ''killed'')]
                 (sampleProc, emptyServer)))
       = ''Command failed with exit code null'' @ [NL] @ ''Error output:'' @ [NL] @ ''killed'' @ [NL]"
    by code_simp+
  from timeout_then_close_history [where env = sampleHost and cfg = sampleConfig and p = sampleProc
         and s = emptyServer and ds = "[(30001, Stderr ''killed'')]" and ?t1.0 = 30000
         and ?t2.0 = 30002 and code = None and due = 30000,
         THEN mp, OF hyp, THEN conjunct2, THEN mp, OF fits]
  show ?thesis
    unfolding vals by simp
qed

section \<open>Policy violations and the history cap\<close>

text \<open>
  \<^verbatim>\<open>execute_command\<close> passes a rejection of \<open>validateCommand\<close> on as it is, and leaves the
  state alone: nothing is spawned and nothing is logged.
\<close>

lemma execute_command_rejects:
  "map_of shellKeys (a_shell a) = Some sh \<Longrightarrow> a_shell a \<in> set (enabledShells cfg) \<Longrightarrow>
   validateCommand u cfg sh (a_command a) = Inl (Mcp InvalidRequest m) \<Longrightarrow>
     execute_command env u cfg a sp now s = (Inl (Mcp InvalidRequest m), s)"
  by (simp add: execute_command_def)

text \<open>
  \<^verbatim>\<open>ssh_execute\<close> calls \<open>validateCommand\<close> inside its \<^verbatim>\<open>try\<close> block, so its \<^verbatim>\<open>catch\<close> takes the
  rejection like a failure of the remote session: it logs it and throws an internal error.
\<close>

lemma ssh_execute_rewraps:
  "ssh_enabled (ssh cfg) \<Longrightarrow> ssh_connections (ssh cfg) connectionId = Some cc \<Longrightarrow>
   validateCommand u cfg Cmd c = Inl e \<Longrightarrow> logCommands (security cfg) \<Longrightarrow>
     ssh_execute env u cfg connectionId c r now s
       = (Inl (Mcp InternalError (''SSH error: '' @ exnMessage env e)),
          s\<lparr>commandHistory := commandHistory s @
             [\<lparr>h_command = c, h_output = ''SSH error: '' @ exnMessage env e,
               h_timestamp = toISOString env now, h_exitCode = - 1,
               h_connectionId = Some connectionId\<rparr>]\<rparr>)"
  by (simp add: ssh_execute_def ssh_try_def Let_def)

text \<open>
  C1, at a remote command with a blocked executable: under the sample configuration
  (blocked command \<^verbatim>\<open>format\<close>, logging on), \<^verbatim>\<open>execute_command\<close> rejects \<^verbatim>\<open>format c:\<close> with
  an invalid-request error; \<^verbatim>\<open>ssh_execute\<close> on the configured connection \<^verbatim>\<open>pi\<close> throws an
  internal error instead and appends an entry to the empty history. The session pool is
  not called.
\<close>

theorem ssh_execute_blocked_command:
  "fst (execute_command sampleHost specValidation sampleConfig
          \<lparr>a_shell = ''cmd'', a_command = ''format c:'', a_workingDir = None\<rparr> Spawned 7 emptyServer)
     = Inl (Mcp InvalidRequest (''Command is blocked: '' @ [DQ] @ ''format'' @ [DQ]))
   \<and> fst (ssh_execute sampleHost specValidation sampleConfig ''pi'' ''format c:'' (Executed ''ok'' 0) 7 emptyServer)
     = Inl (Mcp InternalError (''SSH error: MCP error -32600: Command is blocked: '' @ [DQ] @ ''format'' @ [DQ]))
   \<and> commandHistory (snd (ssh_execute sampleHost specValidation sampleConfig ''pi'' ''format c:''
                             (Executed ''ok'' 0) 7 emptyServer))
     = [\<lparr>h_command = ''format c:'',
          h_output = ''SSH error: MCP error -32600: Command is blocked: '' @ [DQ] @ ''format'' @ [DQ],
          h_timestamp = ''T7.000Z'', h_exitCode = - 1, h_connectionId = Some ''pi''\<rparr>]
   \<and> poolCalls (snd (ssh_execute sampleHost specValidation sampleConfig ''pi'' ''format c:''
                         (Executed ''ok'' 0) 7 emptyServer)) = []"
  by code_simp

text \<open>\<^verbatim>\<open>slice(-l)\<close> for a positive integer \<open>l\<close> keeps the last \<open>l\<close> elements.\<close>

lemma slice_from_last:
  "1 \<le> l \<Longrightarrow> slice_from (- l) xs = drop (length xs - nat l) xs"
  by (auto simp: slice_from_def max_def nat_diff_distrib' intro: arg_cong [where f = "\<lambda>n. drop n xs"])

text \<open>
  Where the history is trimmed, and the cap is positive, the last entries up to the cap
  remain.
\<close>

lemma trimHistory_last:
  "0 < maxHistorySize (security cfg) \<Longrightarrow>
     trimHistory cfg h = drop (length h - nat (maxHistorySize (security cfg))) h
     \<and> int (length (trimHistory cfg h)) \<le> maxHistorySize (security cfg)"
  by (auto simp: trimHistory_def slice_from_last)

text \<open>
  C3, at a history cap of 2 with logging on: three remote executions whose connection fails
  leave three entries in the history; and on a history of two entries, a local execution
  that times out, or whose process reports an error, leaves three, where one that closes
  leaves two. The \<^verbatim>\<open>catch\<close> of \<^verbatim>\<open>ssh_execute\<close>, the timeout callback and the \<^verbatim>\<open>error\<close> listener
  append without trimming.
\<close>

theorem history_over_cap:
  "logCommands (security sampleConfig) \<and> maxHistorySize (security sampleConfig) = 2
   \<and> length (commandHistory (failedRemote 3 (failedRemote 2 (failedRemote 1 emptyServer)))) = 3
   \<and> length (commandHistory twoRuns) = 2
   \<and> length (commandHistory (snd (run sampleHost sampleConfig [(30000, Timeout)] (sampleProc, twoRuns)))) = 3
   \<and> length (commandHistory (snd (run sampleHost sampleConfig [(5, ProcError ''spawn ENOENT'')]
                                      (sampleProc, twoRuns)))) = 3
   \<and> length (commandHistory (snd (run sampleHost sampleConfig [(5, Close (Some 0))]
                                      (sampleProc, twoRuns)))) = 2"
  by code_simp

section \<open>Reading the history\<close>

text \<open>
  \<^verbatim>\<open>slice(-limit)\<close> for a number \<open>limit\<close> that is at least 1 keeps the last \<open>\<lfloor>limit\<rfloor>\<close>
  elements.
\<close>

lemma slice_from_limit:
  "1 \<le> l \<Longrightarrow> slice_from (toIntegerOrInfinity (- l)) xs = drop (length xs - nat \<lfloor>l\<rfloor>) xs"
proof -
  assume l: "1 \<le> l"
  then have "1 \<le> \<lfloor>l\<rfloor>" by simp
  from slice_from_last [OF this] l show ?thesis
    by (simp add: toIntegerOrInfinity_def)
qed

text \<open>
  C5, as the code has it. With history logging disabled the call returns the notice,
  whatever its arguments. With logging enabled, an arguments object whose limit is a number
  from 1 to \<^verbatim>\<open>maxHistorySize\<close>, or which has no limit when 10 is in that range, returns the
  last \<open>\<lfloor>limit\<rfloor>\<close> entries (the last 10 without a limit), most recent last, each result text
  cut to its first 1000 characters. A limit below 1 or above \<^verbatim>\<open>maxHistorySize\<close> is not
  clamped but rejected with an invalid-params error, and so is a call without arguments,
  with arguments that are no object, or with a limit that is no number.
\<close>

theorem get_command_history_in_range:
  "(\<not> logCommands (security cfg) \<longrightarrow>
      get_command_history env cfg args s
        = Inr \<lparr>content = Text historyDisabledNotice, isError = None, metadata = None\<rparr>)
   \<and> (logCommands (security cfg) \<and> 1 \<le> l \<and> l \<le> of_int (maxHistorySize (security cfg))
        \<and> (args = Arguments (Limit l) \<or> args = Arguments NoLimit \<and> l = 10) \<longrightarrow>
      get_command_history env cfg args s
        = Inr \<lparr>content = Json (map (\<lambda>entry. entry\<lparr>h_output := take 1000 (h_output entry)\<rparr>)
                               (drop (length (commandHistory s) - nat \<lfloor>l\<rfloor>) (commandHistory s))),
               isError = None, metadata = None\<rparr>)
   \<and> (logCommands (security cfg) \<and> (l < 1 \<or> of_int (maxHistorySize (security cfg)) < l) \<longrightarrow>
      get_command_history env cfg (Arguments (Limit l)) s
        = Inl (Mcp InvalidParams (''Invalid arguments: '' @ joinComma (limitIssues env cfg l))))
   \<and> (logCommands (security cfg) \<longrightarrow>
      get_command_history env cfg NoArguments s
        = Inl (Mcp InvalidParams (''Invalid arguments: '' @ zodRequired env))
      \<and> get_command_history env cfg (NotAnObject received) s
        = Inl (Mcp InvalidParams (''Invalid arguments: '' @ zodExpectedObject env received))
      \<and> get_command_history env cfg (Arguments (NotANumber received)) s
        = Inl (Mcp InvalidParams (''Invalid arguments: '' @ zodExpectedNumber env received)))"
  by (auto simp: get_command_history_def limitIssues_def slice_from_limit)

text \<open>
  Calls on a server that has run three commands: without history; with the limits 2 and
  3/2 under a cap of 2; without a limit under a cap of 10; with the limit 0; without
  arguments; with an array for the arguments; and with a string for the limit.
\<close>

theorem get_command_history_in_range_witness:
  "get_command_history sampleHost historyOffConfig NoArguments threeRuns
     = Inr \<lparr>content = Text historyDisabledNotice, isError = None, metadata = None\<rparr>
   \<and> get_command_history sampleHost sampleConfig (Arguments (Limit 2)) threeRuns
     = Inr \<lparr>content = Json [entryOf ''b'' ''two'', entryOf ''c'' (replicate 1000 (CHR ''x''))],
            isError = None, metadata = None\<rparr>
   \<and> get_command_history sampleHost sampleConfig (Arguments (Limit (3 / 2))) threeRuns
     = Inr \<lparr>content = Json [entryOf ''c'' (replicate 1000 (CHR ''x''))],
            isError = None, metadata = None\<rparr>
   \<and> get_command_history sampleHost longHistoryConfig (Arguments NoLimit) threeRuns
     = Inr \<lparr>content = Json [entryOf ''a'' ''one'', entryOf ''b'' ''two'',
                             entryOf ''c'' (replicate 1000 (CHR ''x''))],
            isError = None, metadata = None\<rparr>
   \<and> get_command_history sampleHost sampleConfig (Arguments (Limit 0)) threeRuns
     = Inl (Mcp InvalidParams ''Invalid arguments: Number must be greater than or equal to 1'')
   \<and> get_command_history sampleHost sampleConfig NoArguments threeRuns
     = Inl (Mcp InvalidParams ''Invalid arguments: Required'')
   \<and> get_command_history sampleHost sampleConfig (NotAnObject ''array'') threeRuns
     = Inl (Mcp InvalidParams ''Invalid arguments: Expected object, received array'')
   \<and> get_command_history sampleHost sampleConfig (Arguments (NotANumber ''string'')) threeRuns
     = Inl (Mcp InvalidParams ''Invalid arguments: Expected number, received string'')"
proof -
  note t = get_command_history_in_range [where env = sampleHost and s = threeRuns]
  have off: "\<not> logCommands (security historyOffConfig)"
    by code_simp
  have on: "logCommands (security sampleConfig)"
    by code_simp
  have two: "logCommands (security sampleConfig) \<and> 1 \<le> (2::rat)
      \<and> (2::rat) \<le> of_int (maxHistorySize (security sampleConfig))
      \<and> (Arguments (Limit 2) = Arguments (Limit 2) \<or> Arguments (Limit 2) = Arguments NoLimit \<and> (2::rat) = 10)"
    by (simp add: sampleConfig_def longHistoryConfig_def sampleSecurity_def)
  have half: "logCommands (security sampleConfig) \<and> 1 \<le> (3 / 2 :: rat)
      \<and> (3 / 2 :: rat) \<le> of_int (maxHistorySize (security sampleConfig))
      \<and> (Arguments (Limit (3 / 2)) = Arguments (Limit (3 / 2))
          \<or> Arguments (Limit (3 / 2)) = Arguments NoLimit \<and> (3 / 2 :: rat) = 10)"
    by (simp add: sampleConfig_def longHistoryConfig_def sampleSecurity_def)
  have ten: "logCommands (security longHistoryConfig) \<and> 1 \<le> (10::rat)
      \<and> (10::rat) \<le> of_int (maxHistorySize (security longHistoryConfig))
      \<and> (Arguments NoLimit = Arguments (Limit 10) \<or> Arguments NoLimit = Arguments NoLimit \<and> (10::rat) = 10)"
    by (simp add: sampleConfig_def longHistoryConfig_def sampleSecurity_def)
  have zero: "logCommands (security sampleConfig)
      \<and> ((0::rat) < 1 \<or> of_int (maxHistorySize (security sampleConfig)) < (0::rat))"
    by (simp add: sampleConfig_def longHistoryConfig_def sampleSecurity_def)
  have floors: "nat \<lfloor>2::rat\<rfloor> = 2" "nat \<lfloor>3 / 2 :: rat\<rfloor> = 1" "nat \<lfloor>10::rat\<rfloor> = 10"
    by code_simp+
  have last2: "map (\<lambda>entry. entry\<lparr>h_output := take 1000 (h_output entry)\<rparr>)
       (drop (length (commandHistory threeRuns) - 2) (commandHistory threeRuns))
     = [entryOf ''b'' ''two'', entryOf ''c'' (replicate 1000 (CHR ''x''))]"
    by (simp add: threeRuns_def emptyServer_def entryOf_def)
  have last1: "map (\<lambda>entry. entry\<lparr>h_output := take 1000 (h_output entry)\<rparr>)
       (drop (length (commandHistory threeRuns) - 1) (commandHistory threeRuns))
     = [entryOf ''c'' (replicate 1000 (CHR ''x''))]"
    by (simp add: threeRuns_def emptyServer_def entryOf_def)
  have last10: "map (\<lambda>entry. entry\<lparr>h_output := take 1000 (h_output entry)\<rparr>)
       (drop (length (commandHistory threeRuns) - 10) (commandHistory threeRuns))
     = [entryOf ''a'' ''one'', entryOf ''b'' ''two'', entryOf ''c'' (replicate 1000 (CHR ''x''))]"
    by (simp add: threeRuns_def emptyServer_def entryOf_def)
  have issues: "''Invalid arguments: '' @ joinComma (limitIssues sampleHost sampleConfig 0)
     = ''Invalid arguments: Number must be greater than or equal to 1''"
    "''Invalid arguments: '' @ zodRequired sampleHost = ''Invalid arguments: Required''"
    "''Invalid arguments: '' @ zodExpectedObject sampleHost ''array''
       = ''Invalid arguments: Expected object, received array''"
    "''Invalid arguments: '' @ zodExpectedNumber sampleHost ''string''
       = ''Invalid arguments: Expected number, received string''"
    by code_simp+
  have 1: "get_command_history sampleHost historyOffConfig NoArguments threeRuns
     = Inr \<lparr>content = Text historyDisabledNotice, isError = None, metadata = None\<rparr>"
    by (rule t [THEN conjunct1, THEN mp, OF off])
  have 2: "get_command_history sampleHost sampleConfig (Arguments (Limit 2)) threeRuns
     = Inr \<lparr>content = Json [entryOf ''b'' ''two'', entryOf ''c'' (replicate 1000 (CHR ''x''))],
            isError = None, metadata = None\<rparr>"
    using t [THEN conjunct2, THEN conjunct1, THEN mp, OF two] by (simp only: floors last2)
  have 3: "get_command_history sampleHost sampleConfig (Arguments (Limit (3 / 2))) threeRuns
     = Inr \<lparr>content = Json [entryOf ''c'' (replicate 1000 (CHR ''x''))],
            isError = None, metadata = None\<rparr>"
    using t [THEN conjunct2, THEN conjunct1, THEN mp, OF half] by (simp only: floors last1)
  have 4: "get_command_history sampleHost longHistoryConfig (Arguments NoLimit) threeRuns
     = Inr \<lparr>content = Json [entryOf ''a'' ''one'', entryOf ''b'' ''two'',
                             entryOf ''c'' (replicate 1000 (CHR ''x''))],
            isError = None, metadata = None\<rparr>"
    using t [THEN conjunct2, THEN conjunct1, THEN mp, OF ten] by (simp only: floors last10)
  have 5: "get_command_history sampleHost sampleConfig (Arguments (Limit 0)) threeRuns
     = Inl (Mcp InvalidParams ''Invalid arguments: Number must be greater than or equal to 1'')"
    using t [THEN conjunct2, THEN conjunct2, THEN conjunct1, THEN mp, OF zero] by (simp only: issues)
  have 6: "get_command_history sampleHost sampleConfig NoArguments threeRuns
     = Inl (Mcp InvalidParams ''Invalid arguments: Required'')"
    using t [THEN conjunct2, THEN conjunct2, THEN conjunct2, THEN mp, OF on, THEN conjunct1]
    by (simp only: issues)
  have 7: "get_command_history sampleHost sampleConfig (NotAnObject ''array'') threeRuns
     = Inl (Mcp InvalidParams ''Invalid arguments: Expected object, received array'')"
    using t [where received = "''array''", THEN conjunct2, THEN conjunct2, THEN conjunct2, THEN mp,
             OF on, THEN conjunct2, THEN conjunct1]
    by (simp only: issues)
  have 8: "get_command_history sampleHost sampleConfig (Arguments (NotANumber ''string'')) threeRuns
     = Inl (Mcp InvalidParams ''Invalid arguments: Expected number, received string'')"
    using t [where received = "''string''", THEN conjunct2, THEN conjunct2, THEN conjunct2, THEN mp,
             OF on, THEN conjunct2, THEN conjunct2]
    by (simp only: issues)
  show ?thesis
    by (intro conjI) (rule 1 2 3 4 5 6 7 8)+
qed

text \<open>
  With a history cap of 2 and three entries, the limit 5 is rejected; clamped to 2 it would
  have returned the last two entries. With a cap of 10, a call without arguments is
  rejected; with the default limit it would have returned the three entries.
\<close>

theorem get_command_history_clamp_counterexample:
  "get_command_history sampleHost sampleConfig (Arguments (Limit 5)) threeRuns
     = Inl (Mcp InvalidParams ''Invalid arguments: Number must be less than or equal to 2'')
   \<and> spec_get_command_history sampleConfig (Some 5) threeRuns
     = Inr \<lparr>content = Json [entryOf ''b'' ''two'', entryOf ''c'' (replicate 1000 (CHR ''x''))],
            isError = None, metadata = None\<rparr>
   \<and> get_command_history sampleHost longHistoryConfig NoArguments threeRuns
     = Inl (Mcp InvalidParams ''Invalid arguments: Required'')
   \<and> spec_get_command_history longHistoryConfig None threeRuns
     = Inr \<lparr>content = Json [entryOf ''a'' ''one'', entryOf ''b'' ''two'',
                             entryOf ''c'' (replicate 1000 (CHR ''x''))],
            isError = None, metadata = None\<rparr>"
  by (simp add: get_command_history_def limitIssues_def spec_get_command_history_def sampleConfig_def
        longHistoryConfig_def sampleSecurity_def sampleHost_def numberString_def threeRuns_def
        emptyServer_def entryOf_def)

section \<open>The output budget\<close>

text \<open>
  A chunk that fits is appended and counted; a chunk that does not fit leaves the count as
  it is and sets the flag. Over a run of data events the count stays within the cap, the
  flag stays set, an unset flag at the end means every chunk was kept, and with spilling
  off at most one marker is added to the two captures.
\<close>

lemma stdoutText_simps [simp]:
  "stdoutText [] = []"
  "stdoutText ((t, Stdout chunk) # es) = chunk @ stdoutText es"
  "stdoutText ((t, Stderr chunk) # es) = stdoutText es"
  by (simp_all add: stdoutText_def)

lemma onStdout_kept:
  "outputSize p + int (length chunk) \<le> maxOutputSize (security cfg) \<Longrightarrow>
     onStdout env cfg now chunk (p, s)
       = (p\<lparr>outputBuf := outputBuf p @ chunk, outputSize := outputSize p + int (length chunk)\<rparr>, s)"
  by (simp add: onStdout_def)

lemma onStderr_kept:
  "outputSize p + int (length chunk) \<le> maxOutputSize (security cfg) \<Longrightarrow>
     onStderr cfg chunk (p, s)
       = (p\<lparr>errorBuf := errorBuf p @ chunk, outputSize := outputSize p + int (length chunk)\<rparr>, s)"
  by (simp add: onStderr_def)

lemma onStdout_refused:
  assumes "maxOutputSize (security cfg) < outputSize p + int (length chunk)"
  shows "truncated (fst (onStdout env cfg now chunk (p, s)))"
    and "outputSize (fst (onStdout env cfg now chunk (p, s))) = outputSize p"
    and "errorBuf (fst (onStdout env cfg now chunk (p, s))) = errorBuf p"
    and "\<not> enableOutputFiles (security cfg) \<Longrightarrow>
           onStdout env cfg now chunk (p, s)
             = (if truncated p then p else p\<lparr>outputBuf := outputBuf p @ stdoutMarker, truncated := True\<rparr>, s)"
  using assms
  by (simp_all add: onStdout_def saveToFile_def Let_def split: option.splits)

lemma onStderr_refused:
  assumes "maxOutputSize (security cfg) < outputSize p + int (length chunk)"
  shows "onStderr cfg chunk (p, s)
           = (if truncated p then p else p\<lparr>errorBuf := errorBuf p @ stderrMarker, truncated := True\<rparr>, s)"
  using assms by (simp add: onStderr_def)

text \<open>One data event: the budget, the flag and the joint length.\<close>

lemma handle_data_budget:
  assumes d: "isData ev" and lo: "0 \<le> outputSize p" and hi: "outputSize p \<le> maxOutputSize (security cfg)"
  shows "0 \<le> outputSize (fst (handle env cfg (t, ev) (p, s)))"
    and "outputSize (fst (handle env cfg (t, ev) (p, s))) \<le> maxOutputSize (security cfg)"
    and "truncated p \<Longrightarrow> truncated (fst (handle env cfg (t, ev) (p, s)))"
proof -
  show "0 \<le> outputSize (fst (handle env cfg (t, ev) (p, s)))"
    using d lo
    by (cases ev; cases "outputSize p + int (length (case ev of Stdout c \<Rightarrow> c | Stderr c \<Rightarrow> c | _ \<Rightarrow> [])) \<le> maxOutputSize (security cfg)")
       (simp_all add: onStdout_kept onStderr_kept onStdout_refused onStderr_refused)
  show "outputSize (fst (handle env cfg (t, ev) (p, s))) \<le> maxOutputSize (security cfg)"
    using d hi
    by (cases ev; cases "outputSize p + int (length (case ev of Stdout c \<Rightarrow> c | Stderr c \<Rightarrow> c | _ \<Rightarrow> [])) \<le> maxOutputSize (security cfg)")
       (simp_all add: onStdout_kept onStderr_kept onStdout_refused onStderr_refused)
  show "truncated (fst (handle env cfg (t, ev) (p, s)))" if "truncated p"
    using d that
    by (cases ev; cases "outputSize p + int (length (case ev of Stdout c \<Rightarrow> c | Stderr c \<Rightarrow> c | _ \<Rightarrow> [])) \<le> maxOutputSize (security cfg)")
       (simp_all add: onStdout_kept onStderr_kept onStdout_refused onStderr_refused)
qed

lemma handle_data_exact:
  assumes d: "isData ev" and n: "\<not> truncated (fst (handle env cfg (t, ev) (p, s)))"
  shows "handle env cfg (t, ev) (p, s)
           = (p\<lparr>outputBuf := outputBuf p @ stdoutText [(t, ev)],
                errorBuf := errorBuf p @ stderrText [(t, ev)],
                outputSize := outputSize p + int (length (stdoutText [(t, ev)]))
                                + int (length (stderrText [(t, ev)]))\<rparr>, s)"
proof (cases ev)
  case (Stdout c)
  with n have "outputSize p + int (length c) \<le> maxOutputSize (security cfg)"
    using onStdout_refused(1) [of cfg p c env t s] by fastforce
  with Stdout show ?thesis by (simp add: onStdout_kept)
next
  case (Stderr c)
  with n have k: "outputSize p + int (length c) \<le> maxOutputSize (security cfg)"
    using onStderr_refused [of cfg p c s] by (cases "truncated p") fastforce+
  with Stderr show ?thesis by (simp add: onStderr_kept)
qed (use d in simp_all)


lemma handle_data_truncated:
  "isData ev \<Longrightarrow> truncated p \<Longrightarrow> truncated (fst (handle env cfg (t, ev) (p, s)))"
  by (cases ev) (simp_all add: onStdout_def onStderr_def saveToFile_def Let_def split: option.splits)

lemma run_budget:
  "dataOnly es \<Longrightarrow> 0 \<le> outputSize p \<Longrightarrow> outputSize p \<le> maxOutputSize (security cfg) \<Longrightarrow>
     0 \<le> outputSize (fst (run env cfg es (p, s)))
     \<and> outputSize (fst (run env cfg es (p, s))) \<le> maxOutputSize (security cfg)"
proof (induction es arbitrary: p s)
  case Nil
  then show ?case by simp
next
  case (Cons e es)
  obtain t ev where e: "e = (t, ev)" by (cases e)
  obtain p1 s1 where h: "handle env cfg (t, ev) (p, s) = (p1, s1)" by (cases "handle env cfg (t, ev) (p, s)")
  from Cons.prems have d: "isData ev" and r: "dataOnly es"
    by (simp_all add: dataOnly_def e)
  from handle_data_budget(1,2) [OF d Cons.prems(2,3), of env t s] h
  have "0 \<le> outputSize p1" "outputSize p1 \<le> maxOutputSize (security cfg)"
    by simp_all
  from Cons.IH [OF r this] show ?case
    by (simp add: e h)
qed

lemma run_truncated:
  "dataOnly es \<Longrightarrow> truncated p \<Longrightarrow> truncated (fst (run env cfg es (p, s)))"
proof (induction es arbitrary: p s)
  case Nil
  then show ?case by simp
next
  case (Cons e es)
  obtain t ev where e: "e = (t, ev)" by (cases e)
  obtain p1 s1 where h: "handle env cfg (t, ev) (p, s) = (p1, s1)" by (cases "handle env cfg (t, ev) (p, s)")
  from Cons.prems have d: "isData ev" and r: "dataOnly es"
    by (simp_all add: dataOnly_def e)
  from handle_data_truncated [OF d Cons.prems(2), of env cfg t s] h have "truncated p1"
    by simp
  from Cons.IH [OF r this] show ?case
    by (simp add: e h)
qed

lemma run_exact:
  "dataOnly es \<Longrightarrow> \<not> truncated (fst (run env cfg es (p, s))) \<Longrightarrow>
     run env cfg es (p, s)
       = (p\<lparr>outputBuf := outputBuf p @ stdoutText es,
            errorBuf := errorBuf p @ stderrText es,
            outputSize := outputSize p + int (length (stdoutText es)) + int (length (stderrText es))\<rparr>, s)"
proof (induction es arbitrary: p s)
  case Nil
  then show ?case by simp
next
  case (Cons e es)
  obtain t ev where e: "e = (t, ev)" by (cases e)
  obtain p1 s1 where h: "handle env cfg (t, ev) (p, s) = (p1, s1)" by (cases "handle env cfg (t, ev) (p, s)")
  from Cons.prems have d: "isData ev" and r: "dataOnly es"
    by (simp_all add: dataOnly_def e)
  from Cons.prems(2) have n: "\<not> truncated (fst (run env cfg es (p1, s1)))"
    by (simp add: e h)
  with run_truncated [OF r, of p1 env cfg s1] have "\<not> truncated p1"
    by blast
  with handle_data_exact [OF d, of env cfg t p s] h
  have p1: "(p1, s1) = (p\<lparr>outputBuf := outputBuf p @ stdoutText [(t, ev)],
                errorBuf := errorBuf p @ stderrText [(t, ev)],
                outputSize := outputSize p + int (length (stdoutText [(t, ev)]))
                                + int (length (stderrText [(t, ev)]))\<rparr>, s)"
    by simp
  from d have split: "stdoutText ((t, ev) # es) = stdoutText [(t, ev)] @ stdoutText es"
    "stderrText ((t, ev) # es) = stderrText [(t, ev)] @ stderrText es"
    by (cases ev; simp)+
  from Cons.IH [OF r n] show ?case
    using p1 by (simp add: e h split)
qed

lemma run_all_kept:
  "dataOnly es \<Longrightarrow>
   outputSize p + int (length (stdoutText es)) + int (length (stderrText es)) \<le> maxOutputSize (security cfg) \<Longrightarrow>
     run env cfg es (p, s)
       = (p\<lparr>outputBuf := outputBuf p @ stdoutText es,
            errorBuf := errorBuf p @ stderrText es,
            outputSize := outputSize p + int (length (stdoutText es)) + int (length (stderrText es))\<rparr>, s)"
proof (induction es arbitrary: p)
  case Nil
  then show ?case by simp
next
  case (Cons e es)
  obtain t ev where e: "e = (t, ev)" by (cases e)
  from Cons.prems have d: "isData ev" and r: "dataOnly es"
    by (simp_all add: dataOnly_def e)
  show ?case
  proof (cases ev)
    case (Stdout c)
    with Cons.prems(2) have k: "outputSize p + int (length c) \<le> maxOutputSize (security cfg)"
      and rest: "outputSize (p\<lparr>outputBuf := outputBuf p @ c, outputSize := outputSize p + int (length c)\<rparr>)
                   + int (length (stdoutText es)) + int (length (stderrText es)) \<le> maxOutputSize (security cfg)"
      by (simp_all add: e)
    from Cons.IH [OF r rest] show ?thesis
      by (simp add: e Stdout onStdout_kept [OF k])
  next
    case (Stderr c)
    with Cons.prems(2) have k: "outputSize p + int (length c) \<le> maxOutputSize (security cfg)"
      and rest: "outputSize (p\<lparr>errorBuf := errorBuf p @ c, outputSize := outputSize p + int (length c)\<rparr>)
                   + int (length (stdoutText es)) + int (length (stderrText es)) \<le> maxOutputSize (security cfg)"
      by (simp_all add: e)
    from Cons.IH [OF r rest] show ?thesis
      by (simp add: e Stderr onStderr_kept [OF k])
  qed (use d in simp_all)
qed

lemma handle_data_joint:
  assumes d: "isData ev" and off: "\<not> enableOutputFiles (security cfg)"
    and j: "int (length (outputBuf p)) + int (length (errorBuf p))
             \<le> outputSize p + (if truncated p then int (max (length stdoutMarker) (length stderrMarker)) else 0)"
  shows "int (length (outputBuf (fst (handle env cfg (t, ev) (p, s)))))
           + int (length (errorBuf (fst (handle env cfg (t, ev) (p, s)))))
         \<le> outputSize (fst (handle env cfg (t, ev) (p, s)))
             + (if truncated (fst (handle env cfg (t, ev) (p, s)))
                then int (max (length stdoutMarker) (length stderrMarker)) else 0)"
proof (cases ev)
  case (Stdout c)
  show ?thesis
  proof (cases "outputSize p + int (length c) \<le> maxOutputSize (security cfg)")
    case True
    with j show ?thesis by (simp add: Stdout onStdout_kept)
  next
    case False
    then have "maxOutputSize (security cfg) < outputSize p + int (length c)" by simp
    from onStdout_refused(4) [OF this off, of env t s] j show ?thesis
      by (auto simp: Stdout split: if_splits)
  qed
next
  case (Stderr c)
  show ?thesis
  proof (cases "outputSize p + int (length c) \<le> maxOutputSize (security cfg)")
    case True
    with j show ?thesis by (simp add: Stderr onStderr_kept)
  next
    case False
    then have "maxOutputSize (security cfg) < outputSize p + int (length c)" by simp
    from onStderr_refused [OF this, of s] j show ?thesis
      by (auto simp: Stderr split: if_splits)
  qed
qed (use d in simp_all)

lemma run_joint:
  "dataOnly es \<Longrightarrow> \<not> enableOutputFiles (security cfg) \<Longrightarrow>
   int (length (outputBuf p)) + int (length (errorBuf p))
     \<le> outputSize p + (if truncated p then int (max (length stdoutMarker) (length stderrMarker)) else 0) \<Longrightarrow>
   int (length (outputBuf (fst (run env cfg es (p, s))))) + int (length (errorBuf (fst (run env cfg es (p, s)))))
     \<le> outputSize (fst (run env cfg es (p, s)))
         + (if truncated (fst (run env cfg es (p, s)))
            then int (max (length stdoutMarker) (length stderrMarker)) else 0)"
proof (induction es arbitrary: p s)
  case Nil
  then show ?case by simp
next
  case (Cons e es)
  obtain t ev where e: "e = (t, ev)" by (cases e)
  obtain p1 s1 where h: "handle env cfg (t, ev) (p, s) = (p1, s1)" by (cases "handle env cfg (t, ev) (p, s)")
  from Cons.prems have d: "isData ev" and r: "dataOnly es"
    by (simp_all add: dataOnly_def e)
  from handle_data_joint [OF d Cons.prems(2,3), of env t s] h
  have "int (length (outputBuf p1)) + int (length (errorBuf p1))
     \<le> outputSize p1 + (if truncated p1 then int (max (length stdoutMarker) (length stderrMarker)) else 0)"
    by simp
  from Cons.IH [OF r Cons.prems(2) this] show ?case
    by (simp add: e h)
qed

text \<open>
  C2, as the code has it: the captures of standard output and standard error share one
  counter and one truncation flag. For every run of data events from the spawn, the
  counter stays between 0 and the cap; when the two streams together carry no more than the
  cap, both captures hold exactly what was received and nothing is truncated; when together
  they carry more than the cap the capture is truncated, even if each stream alone is
  within the cap; and with spilling off the two captures together hold at most the cap plus
  one truncation marker.
\<close>

theorem shared_output_budget:
  "0 \<le> maxOutputSize (security cfg) \<and> dataOnly es
     \<and> p' = fst (run env cfg es (spawned cfg c sh wd now, s)) \<longrightarrow>
     0 \<le> outputSize p' \<and> outputSize p' \<le> maxOutputSize (security cfg)
     \<and> (int (length (stdoutText es)) + int (length (stderrText es)) \<le> maxOutputSize (security cfg) \<longrightarrow>
          outputBuf p' = stdoutText es \<and> errorBuf p' = stderrText es \<and> \<not> truncated p')
     \<and> (maxOutputSize (security cfg) < int (length (stdoutText es)) + int (length (stderrText es)) \<longrightarrow>
          truncated p')
     \<and> (\<not> enableOutputFiles (security cfg) \<longrightarrow>
          int (length (outputBuf p')) + int (length (errorBuf p'))
            \<le> maxOutputSize (security cfg) + int (max (length stdoutMarker) (length stderrMarker)))"
proof (intro impI)
  assume a: "0 \<le> maxOutputSize (security cfg) \<and> dataOnly es
     \<and> p' = fst (run env cfg es (spawned cfg c sh wd now, s))"
  let ?p = "spawned cfg c sh wd now"
  from a have m: "0 \<le> maxOutputSize (security cfg)" and d: "dataOnly es"
    and p': "p' = fst (run env cfg es (?p, s))"
    by simp_all
  have p0: "outputSize ?p = 0" "outputBuf ?p = []" "errorBuf ?p = []" "\<not> truncated ?p"
    by (simp_all add: spawned_def)
  have b: "0 \<le> outputSize p' \<and> outputSize p' \<le> maxOutputSize (security cfg)"
    unfolding p' by (rule run_budget [OF d]) (simp_all add: p0 m)
  have k: "outputBuf p' = stdoutText es \<and> errorBuf p' = stderrText es \<and> \<not> truncated p'"
    if "int (length (stdoutText es)) + int (length (stderrText es)) \<le> maxOutputSize (security cfg)"
    unfolding p' using run_all_kept [OF d, of ?p cfg env s] that by (simp add: p0)
  have t: "truncated p'"
    if over: "maxOutputSize (security cfg) < int (length (stdoutText es)) + int (length (stderrText es))"
  proof (rule ccontr)
    assume "\<not> truncated p'"
    then have "outputSize p' = int (length (stdoutText es)) + int (length (stderrText es))"
      unfolding p' using run_exact [OF d, of env cfg ?p s] by (simp add: p0)
    with b over show False by simp
  qed
  have j: "int (length (outputBuf p')) + int (length (errorBuf p'))
            \<le> maxOutputSize (security cfg) + int (max (length stdoutMarker) (length stderrMarker))"
    if off: "\<not> enableOutputFiles (security cfg)"
  proof -
    have "int (length (outputBuf p')) + int (length (errorBuf p'))
       \<le> outputSize p' + (if truncated p' then int (max (length stdoutMarker) (length stderrMarker)) else 0)"
      unfolding p' by (rule run_joint [OF d off]) (simp add: p0)
    with b show ?thesis by (simp split: if_splits)
  qed
  from b k t j
  show "0 \<le> outputSize p' \<and> outputSize p' \<le> maxOutputSize (security cfg)
     \<and> (int (length (stdoutText es)) + int (length (stderrText es)) \<le> maxOutputSize (security cfg) \<longrightarrow>
          outputBuf p' = stdoutText es \<and> errorBuf p' = stderrText es \<and> \<not> truncated p')
     \<and> (maxOutputSize (security cfg) < int (length (stdoutText es)) + int (length (stderrText es)) \<longrightarrow>
          truncated p')
     \<and> (\<not> enableOutputFiles (security cfg) \<longrightarrow>
          int (length (outputBuf p')) + int (length (errorBuf p'))
            \<le> maxOutputSize (security cfg) + int (max (length stdoutMarker) (length stderrMarker)))"
    by blast
qed

text \<open>
  Under the sample cap of 10: after 8 characters of standard error, 5 characters of standard
  output are refused, and the output buffer holds the marker only; the next 5 characters of
  standard error are refused without a marker.
\<close>

theorem independent_caps_counterexample:
  "maxOutputSize (security sampleConfig) = 10
   \<and> stdoutText stderrFirst = ''abcde''
   \<and> outputBuf (fst (run sampleHost sampleConfig stderrFirst (sampleProc, emptyServer))) = stdoutMarker
   \<and> stderrText stderrFirst = ''12345678vwxyz''
   \<and> errorBuf (fst (run sampleHost sampleConfig stderrFirst (sampleProc, emptyServer))) = ''12345678''"
  by code_simp

text \<open>The same run, and a run that fits, as instances of the theorem.\<close>

theorem shared_output_budget_witness:
  "outputSize (fst (run sampleHost sampleConfig stderrFirst (sampleProc, emptyServer))) \<le> 10
   \<and> truncated (fst (run sampleHost sampleConfig stderrFirst (sampleProc, emptyServer)))
   \<and> int (length (outputBuf (fst (run sampleHost sampleConfig stderrFirst (sampleProc, emptyServer)))))
        + int (length (errorBuf (fst (run sampleHost sampleConfig stderrFirst (sampleProc, emptyServer)))))
      \<le> 10 + int (max (length stdoutMarker) (length stderrMarker))
   \<and> outputBuf (fst (run sampleHost sampleConfig smallRun (sampleProc, emptyServer))) = ''abcde''
   \<and> errorBuf (fst (run sampleHost sampleConfig smallRun (sampleProc, emptyServer))) = ''1234''
   \<and> \<not> truncated (fst (run sampleHost sampleConfig smallRun (sampleProc, emptyServer)))"
proof -
  note t = shared_output_budget [where env = sampleHost and cfg = sampleConfig and c = "''dir''"
             and sh = Cmd and wd = "cwd sampleHost" and now = 0 and s = emptyServer,
             folded sampleProc_def, THEN mp, OF conjI, OF _ conjI, OF _ _ refl]
  have m: "0 \<le> maxOutputSize (security sampleConfig)" "maxOutputSize (security sampleConfig) = 10"
      "\<not> enableOutputFiles (security sampleConfig)"
    by code_simp+
  have big: "dataOnly stderrFirst"
      "maxOutputSize (security sampleConfig)
         < int (length (stdoutText stderrFirst)) + int (length (stderrText stderrFirst))"
    by code_simp+
  have small: "dataOnly smallRun"
      "int (length (stdoutText smallRun)) + int (length (stderrText smallRun))
         \<le> maxOutputSize (security sampleConfig)"
      "stdoutText smallRun = ''abcde''" "stderrText smallRun = ''1234''"
    by code_simp+
  note a = t [OF m(1) big(1)]
  note b = t [OF m(1) small(1)]
  have 1: "outputSize (fst (run sampleHost sampleConfig stderrFirst (sampleProc, emptyServer))) \<le> 10"
    using a [THEN conjunct2, THEN conjunct1] by (simp only: m(2))
  have 2: "truncated (fst (run sampleHost sampleConfig stderrFirst (sampleProc, emptyServer)))"
    by (rule a [THEN conjunct2, THEN conjunct2, THEN conjunct2, THEN conjunct1, THEN mp, OF big(2)])
  have 3: "int (length (outputBuf (fst (run sampleHost sampleConfig stderrFirst (sampleProc, emptyServer)))))
        + int (length (errorBuf (fst (run sampleHost sampleConfig stderrFirst (sampleProc, emptyServer)))))
      \<le> 10 + int (max (length stdoutMarker) (length stderrMarker))"
    using a [THEN conjunct2, THEN conjunct2, THEN conjunct2, THEN conjunct2, THEN mp, OF m(3)]
    by (simp only: m(2))
  note k = b [THEN conjunct2, THEN conjunct2, THEN conjunct1, THEN mp, OF small(2)]
  have 4: "outputBuf (fst (run sampleHost sampleConfig smallRun (sampleProc, emptyServer))) = ''abcde''"
    using k [THEN conjunct1] by (simp only: small(3))
  have 5: "errorBuf (fst (run sampleHost sampleConfig smallRun (sampleProc, emptyServer))) = ''1234''"
    using k [THEN conjunct2, THEN conjunct1] by (simp only: small(4))
  have 6: "\<not> truncated (fst (run sampleHost sampleConfig smallRun (sampleProc, emptyServer)))"
    by (rule k [THEN conjunct2, THEN conjunct2])
  show ?thesis
    by (intro conjI) (rule 1 2 3 4 5 6)+
qed

section \<open>Overflow of standard output\<close>




















end
